theory Spec2Isabelle
  imports Main "HOL-Library.AList"
begin

section \<open>JavaScript values\<close>

text \<open>
  The helpers of \<^verbatim>\<open>reference/GenericFunctions.ts\<close> move untyped JSON data around
  (\<^verbatim>\<open>IDataObject\<close>, \<^verbatim>\<open>any\<close>). A value is one of the JavaScript shapes the code
  can tell apart; an object keeps its properties in insertion order. Numbers are the
  integers (status codes, page numbers, counts).
\<close>

datatype jsval =
    JUndefined
  | JNull
  | JBool bool
  | JNum int
  | JStr string
  | JArr "jsval list"
  | JObj "(string \<times> jsval) list"

text \<open>JavaScript truthiness, as tested by \<^verbatim>\<open>if (v)\<close>, \<^verbatim>\<open>!v\<close>, \<^verbatim>\<open>a || b\<close> and \<^verbatim>\<open>a && b\<close>.\<close>

fun truthy :: "jsval \<Rightarrow> bool" where
  "truthy JUndefined = False"
| "truthy JNull = False"
| "truthy (JBool b) = b"
| "truthy (JNum n) = (n \<noteq> 0)"
| "truthy (JStr s) = (s \<noteq> [])"
| "truthy (JArr xs) = True"
| "truthy (JObj ps) = True"

text \<open>\<^verbatim>\<open>Array.isArray(v)\<close>.\<close>

fun isArray :: "jsval \<Rightarrow> bool" where
  "isArray (JArr xs) = True"
| "isArray v = False"

text \<open>
  Exceptions raised by the helpers themselves (\<open>JsError\<close> is a plain
  \<^verbatim>\<open>new Error(message)\<close>). \<^verbatim>\<open>NodeApiError\<close> is built from the object literal
  \<^verbatim>\<open>{ message, description, httpCode, cause }\<close>; a field the literal leaves out is
  \<open>None\<close>.
\<close>

record api_error_fields =
  message :: string
  description :: string
  httpCode :: "string option"
  cause :: "jsval option"

datatype thrown =
    NodeOperationError string
  | TypeError string
  | JsError string
  | NodeApiError api_error_fields

text \<open>
  The message an exception was constructed with. What its \<^verbatim>\<open>message\<close> property then
  reads is up to the class that was instantiated; for the classes of the host library
  that is the host's business (see \<open>ctx_errorMessage\<close> below).
\<close>

fun constructor_message :: "thrown \<Rightarrow> string" where
  "constructor_message (NodeOperationError m) = m"
| "constructor_message (TypeError m) = m"
| "constructor_message (JsError m) = m"
| "constructor_message (NodeApiError f) = message f"

text \<open>
  Reading a named (non-index) property \<^verbatim>\<open>v.name\<close>: an object yields the stored value
  or \<^verbatim>\<open>undefined\<close>; arrays and primitives have no such property; \<^verbatim>\<open>undefined\<close> and
  \<^verbatim>\<open>null\<close> raise a \<^verbatim>\<open>TypeError\<close>.
\<close>

definition cannot_read :: "string \<Rightarrow> string \<Rightarrow> thrown" where
  "cannot_read what name =
     TypeError (''Cannot read properties of '' @ what @ '' (reading '' @ [CHR 0x27] @ name @ [CHR 0x27] @ '')'')"

fun get_prop :: "jsval \<Rightarrow> string \<Rightarrow> thrown + jsval" where
  "get_prop JUndefined name = Inl (cannot_read ''undefined'' name)"
| "get_prop JNull name = Inl (cannot_read ''null'' name)"
| "get_prop (JObj ps) name = (case map_of ps name of None \<Rightarrow> Inr JUndefined | Some v \<Rightarrow> Inr v)"
| "get_prop v name = Inr JUndefined"

text \<open>Decimal digits of a number, for \<^verbatim>\<open>statusCode.toString()\<close> and template strings.\<close>

fun digit_char :: "nat \<Rightarrow> char" where
  "digit_char n = char_of (48 + n)"

fun nat_to_string :: "nat \<Rightarrow> string" where
  "nat_to_string n = (if n < 10 then [digit_char n] else nat_to_string (n div 10) @ [digit_char (n mod 10)])"

declare nat_to_string.simps [simp del]

definition int_to_string :: "int \<Rightarrow> string" where
  "int_to_string i = (if i < 0 then CHR ''-'' # nat_to_string (nat (- i)) else nat_to_string (nat i))"

text \<open>
  String conversion of a value inside a template literal or a \<^verbatim>\<open>+\<close> with a string.
  An array joins its elements with commas, \<^verbatim>\<open>null\<close> and \<^verbatim>\<open>undefined\<close> elements
  contributing nothing.
\<close>

fun join_with :: "string \<Rightarrow> string list \<Rightarrow> string" where
  "join_with sep [] = []"
| "join_with sep [s] = s"
| "join_with sep (s # t # ts) = s @ sep @ join_with sep (t # ts)"

fun toString :: "jsval \<Rightarrow> string" where
  "toString JUndefined = ''undefined''"
| "toString JNull = ''null''"
| "toString (JBool b) = (if b then ''true'' else ''false'')"
| "toString (JNum n) = int_to_string n"
| "toString (JStr s) = s"
| "toString (JArr xs) =
     join_with '','' (map (\<lambda>x. if x = JUndefined \<or> x = JNull then [] else toString x) xs)"
| "toString (JObj ps) = ''[object Object]''"

section \<open>The execution context and the outside world\<close>

datatype IHttpRequestMethods = DELETE | GET | HEAD | PATCH | POST | PUT

fun method_name :: "IHttpRequestMethods \<Rightarrow> string" where
  "method_name DELETE = ''DELETE''"
| "method_name GET = ''GET''"
| "method_name HEAD = ''HEAD''"
| "method_name PATCH = ''PATCH''"
| "method_name POST = ''POST''"
| "method_name PUT = ''PUT''"

text \<open>\<^verbatim>\<open>IHttpRequestOptions\<close>, with the fields the helpers set.\<close>

record IHttpRequestOptions =
  http_method :: IHttpRequestMethods
  url :: string
  headers :: "(string \<times> string) list"
  body :: "(string \<times> jsval) list option"
  qs :: "(string \<times> jsval) list option"
  returnFullResponse :: bool
  ignoreHttpStatusErrors :: bool

text \<open>
  What \<^verbatim>\<open>this.helpers.httpRequest\<close> rejects with. The helpers read
  \<^verbatim>\<open>error.statusCode\<close>, \<^verbatim>\<open>error.response\<close> (its \<^verbatim>\<open>statusCode\<close> and \<^verbatim>\<open>body\<close>),
  \<^verbatim>\<open>error.message\<close> and \<^verbatim>\<open>error.error\<close>; \<open>None\<close> and \<open>JUndefined\<close> stand for an
  absent property.
\<close>

record error_response =
  resp_statusCode :: "int option"
  resp_body :: jsval

record http_error =
  err_statusCode :: "int option"
  err_response :: "error_response option"
  err_message :: "string option"
  err_error :: jsval

text \<open>
  Everything observable a call does: the requests handed to the transport and the
  back-off delays (in milliseconds), in the order they happen.
\<close>

datatype event = Request IHttpRequestOptions | Sleep nat

type_synonym world = "event list"

text \<open>The raw credential object of \<^verbatim>\<open>this.getCredentials('homebridgeApi')\<close>.\<close>

record raw_credentials =
  raw_serverUrl :: "string option"
  raw_username :: "string option"
  raw_password :: "string option"
  raw_otp :: "string option"

record IHomebridgeCredentials =
  serverUrl :: string
  username :: string
  password :: string
  otp :: "string option"

record INodeExecutionData =
  json :: jsval

text \<open>
  The host's execution context \<^verbatim>\<open>this\<close>: stored credentials, the \<^verbatim>\<open>accessToken\<close>
  node parameter per item (with the default \<^verbatim>\<open>''\<close> the calls pass), the input items,
  and the HTTP transport, whose answer may depend on everything that happened before.
  The error classes \<^verbatim>\<open>NodeApiError\<close> and \<^verbatim>\<open>NodeOperationError\<close> belong to the host
  library too, not to this repository, and their constructors decide what the
  \<^verbatim>\<open>message\<close> property of the exception reads (the library replaces the message of an
  API error by its own text for the status code, for one). So \<^verbatim>\<open>error.message\<close> of a
  caught exception is a parameter as well.
\<close>

record exec_context =
  ctx_credentials :: "raw_credentials option"
  ctx_accessToken :: "nat \<Rightarrow> string"
  ctx_inputData :: "INodeExecutionData list"
  ctx_transport :: "world \<Rightarrow> IHttpRequestOptions \<Rightarrow> http_error + jsval"
  ctx_errorMessage :: "thrown \<Rightarrow> string"

section \<open>Constants\<close>

definition MAX_RETRIES :: nat where
  "MAX_RETRIES = 3"

definition RETRY_DELAY :: nat where
  "RETRY_DELAY = 1000"

definition RETRY_STATUS_CODES :: "int list" where
  "RETRY_STATUS_CODES = [429, 500, 502, 503, 504]"

section \<open>Credentials\<close>

text \<open>\<^verbatim>\<open>!s\<close> on an optional string: absent or empty.\<close>

fun falsy_string :: "string option \<Rightarrow> bool" where
  "falsy_string None = True"
| "falsy_string (Some s) = (s = [])"

text \<open>\<^verbatim>\<open>if (serverUrl.endsWith('/')) serverUrl = serverUrl.slice(0, -1)\<close>.\<close>

definition endsWith :: "string \<Rightarrow> string \<Rightarrow> bool" where
  "endsWith s suffix = (length suffix \<le> length s \<and> drop (length s - length suffix) s = suffix)"

definition strip_trailing_slash :: "string \<Rightarrow> string" where
  "strip_trailing_slash u =
     (if endsWith u ''/'' then take (length u - 1) u else u)"

definition getCredentials :: "exec_context \<Rightarrow> thrown + IHomebridgeCredentials" where
  "getCredentials ctx =
     (case ctx_credentials ctx of
        None \<Rightarrow> Inl (NodeOperationError
                  ''No Homebridge credentials found. Please configure credentials first.'')
      | Some c \<Rightarrow>
          if falsy_string (raw_serverUrl c) then
            Inl (NodeOperationError ''Server URL is required in Homebridge credentials.'')
          else if falsy_string (raw_username c) then
            Inl (NodeOperationError ''Username is required in Homebridge credentials.'')
          else if falsy_string (raw_password c) then
            Inl (NodeOperationError ''Password is required in Homebridge credentials.'')
          else
            Inr \<lparr> serverUrl = strip_trailing_slash (case raw_serverUrl c of Some s \<Rightarrow> s | None \<Rightarrow> []),
                  username = (case raw_username c of Some s \<Rightarrow> s | None \<Rightarrow> []),
                  password = (case raw_password c of Some s \<Rightarrow> s | None \<Rightarrow> []),
                  otp = raw_otp c \<rparr>)"

section \<open>Token resolution\<close>

definition no_access_token_message :: string where
  "no_access_token_message =
     ''No access token available. Please either:'' @ [CHR 0x0A] @
     ''1. Connect a Login node to this node, or'' @ [CHR 0x0A] @
     ''2. Manually enter the access token in the '' @ [CHR 0x22] @ ''Access Token'' @
     [CHR 0x22] @ '' field.''"

text \<open>
  \<^verbatim>\<open>getAccessToken\<close> (GenericFunctions.ts, lines 147-185). \<^verbatim>\<open>items[itemIndex]\<close> past
  the end of the input is \<^verbatim>\<open>undefined\<close>, and reading its \<^verbatim>\<open>json\<close> raises. The token
  found upstream is returned as it is stored (the cast to \<^verbatim>\<open>string\<close> converts nothing).
\<close>

definition getAccessToken :: "exec_context \<Rightarrow> nat \<Rightarrow> thrown + jsval" where
  "getAccessToken ctx itemIndex =
     (let accessToken = ctx_accessToken ctx itemIndex in
      if accessToken \<noteq> [] then Inr (JStr accessToken)
      else
        let items = ctx_inputData ctx in
        if length items > 0 then
          (if itemIndex < length items then
             (let item = items ! itemIndex in
              case get_prop (json item) ''access_token'' of
                Inl e \<Rightarrow> Inl e
              | Inr direct \<Rightarrow>
                  if truthy direct then Inr direct
                  else
                    (case json item of
                       JArr (firstItem # others) \<Rightarrow>
                         if truthy firstItem then
                           (case get_prop firstItem ''access_token'' of
                              Inl e \<Rightarrow> Inl e
                            | Inr nested \<Rightarrow>
                                if truthy nested then Inr nested
                                else Inl (NodeOperationError no_access_token_message))
                         else Inl (NodeOperationError no_access_token_message)
                     | _ \<Rightarrow> Inl (NodeOperationError no_access_token_message)))
           else Inl (cannot_read ''undefined'' ''json''))
        else Inl (NodeOperationError no_access_token_message))"

text \<open>
  The token lookup of the \<^verbatim>\<open>preSend\<close> hook \<^verbatim>\<open>addAuthToRequest\<close> of the node
  description (its lines 23-62): what the hook does for every request but the login
  request, before it writes the \<^verbatim>\<open>Authorization\<close> header. (For the login request the
  hook returns earlier, with the credentials as body, and looks up no token.) The loop
  over the input items runs inside \<^verbatim>\<open>try { ... } catch { }\<close>: an exception leaves
  \<^verbatim>\<open>accessToken\<close> at \<^verbatim>\<open>null\<close>.
\<close>

fun scan_items :: "INodeExecutionData list \<Rightarrow> thrown + jsval" where
  "scan_items [] = Inr JNull"
| "scan_items (item # rest) =
     (if truthy (json item) then
        (case get_prop (json item) ''access_token'' of
           Inl e \<Rightarrow> Inl e
         | Inr direct \<Rightarrow>
             if truthy direct then Inr direct
             else
               (case json item of
                  JArr (firstItem # others) \<Rightarrow>
                    if truthy firstItem then
                      (case get_prop firstItem ''access_token'' of
                         Inl e \<Rightarrow> Inl e
                       | Inr nested \<Rightarrow> if truthy nested then Inr nested else scan_items rest)
                    else scan_items rest
                | _ \<Rightarrow> scan_items rest))
      else scan_items rest)"

definition addAuthToRequest_message :: string where
  "addAuthToRequest_message =
     ''No access token available. Please either: 1) Connect the Login node to this node, '' @
     ''or 2) Manually enter the access token in the '' @ [CHR 0x22] @ ''Access Token'' @
     [CHR 0x22] @ '' field.''"

definition addAuthToRequest_token :: "exec_context \<Rightarrow> thrown + jsval" where
  "addAuthToRequest_token ctx =
     (let accessToken = (case scan_items (ctx_inputData ctx) of Inl e \<Rightarrow> JNull | Inr t \<Rightarrow> t) in
      if \<not> truthy accessToken then
        (let userToken = ctx_accessToken ctx 0 in
         if userToken \<noteq> [] then Inr (JStr userToken)
         else Inl (JsError addAuthToRequest_message))
      else Inr accessToken)"

section \<open>Dispatch and retry\<close>

text \<open>One call of \<^verbatim>\<open>this.helpers.httpRequest(options)\<close>: the transport answers, and the
  request is on record.\<close>

definition httpRequest :: "exec_context \<Rightarrow> IHttpRequestOptions \<Rightarrow> world \<Rightarrow> (http_error + jsval) \<times> world" where
  "httpRequest ctx options w = (ctx_transport ctx w options, w @ [Request options])"

text \<open>\<^verbatim>\<open>n || m\<close> on optional numbers: \<^verbatim>\<open>undefined\<close> and \<^verbatim>\<open>0\<close> are falsy.\<close>

fun truthy_num :: "int option \<Rightarrow> bool" where
  "truthy_num None = False"
| "truthy_num (Some n) = (n \<noteq> 0)"

text \<open>\<^verbatim>\<open>error.statusCode || error.response?.statusCode\<close>.\<close>

definition resolved_statusCode :: "http_error \<Rightarrow> int option" where
  "resolved_statusCode error =
     (if truthy_num (err_statusCode error) then err_statusCode error
      else (case err_response error of None \<Rightarrow> None | Some r \<Rightarrow> resp_statusCode r))"

text \<open>\<^verbatim>\<open>codes.includes(statusCode)\<close>; \<^verbatim>\<open>undefined\<close> is in no list of numbers.\<close>

fun array_includes :: "int list \<Rightarrow> int option \<Rightarrow> bool" where
  "array_includes codes None = False"
| "array_includes codes (Some n) = (n \<in> set codes)"

function homebridgeApiRequestWithRetry ::
  "exec_context \<Rightarrow> IHttpRequestOptions \<Rightarrow> nat \<Rightarrow> world \<Rightarrow> (http_error + jsval) \<times> world" where
  "homebridgeApiRequestWithRetry ctx options retryCount w =
     (case httpRequest ctx options w of
        (Inr response, w') \<Rightarrow> (Inr response, w')
      | (Inl error, w') \<Rightarrow>
          (let statusCode = resolved_statusCode error in
           if array_includes RETRY_STATUS_CODES statusCode \<and> retryCount < MAX_RETRIES then
             (let delay = RETRY_DELAY * 2 ^ retryCount in
              homebridgeApiRequestWithRetry ctx options (retryCount + 1) (w' @ [Sleep delay]))
           else (Inl error, w')))"
  by pat_completeness auto
termination
  by (relation "measure (\<lambda>(ctx, options, retryCount, w). MAX_RETRIES - retryCount)") auto

declare homebridgeApiRequestWithRetry.simps [simp del]

section \<open>Error normalisation\<close>

text \<open>
  \<^verbatim>\<open>handleApiError\<close> (lines 279-332). The status defaults to 500 when none is resolved,
  before the \<^verbatim>\<open>switch\<close>. \<^verbatim>\<open>errorBody\<close> is always truthy, so reading its \<^verbatim>\<open>message\<close>
  cannot raise; were it to, the exception would leave the function in place of the
  \<^verbatim>\<open>NodeApiError\<close>.
\<close>

definition handleApiError :: "http_error \<Rightarrow> string \<Rightarrow> string \<Rightarrow> thrown" where
  "handleApiError error endpoint methodName =
     (let statusCode = (case resolved_statusCode error of
                          None \<Rightarrow> 500
                        | Some n \<Rightarrow> if n \<noteq> 0 then n else 500);
          errorMessage = (case err_message error of
                            None \<Rightarrow> ''Unknown error''
                          | Some m \<Rightarrow> if m \<noteq> [] then m else ''Unknown error'');
          responseBody = (case err_response error of None \<Rightarrow> JUndefined | Some r \<Rightarrow> resp_body r);
          errorBody = (if truthy responseBody then responseBody
                       else if truthy (err_error error) then err_error error
                       else JObj []);
          defaultMessage = ''Homebridge API Error ('' @ methodName @ '' '' @ endpoint @ '')'';
          build = (\<lambda>msg descr. NodeApiError
                     \<lparr> message = msg, description = descr,
                       httpCode = Some (int_to_string statusCode),
                       cause = (if truthy errorBody then Some errorBody else None) \<rparr>)
      in
      if statusCode = 400 then
        build ''Bad Request'' ''The request was invalid. Please check your parameters.''
      else if statusCode = 401 then
        build ''Unauthorized'' ''Access token is invalid or expired. Please authenticate again.''
      else if statusCode = 403 then
        build ''Forbidden'' ''You do not have permission to perform this action.''
      else if statusCode = 404 then
        build ''Not Found'' ''The requested resource was not found.''
      else if statusCode = 422 then
        (case get_prop errorBody ''message'' of
           Inl e \<Rightarrow> e
         | Inr m \<Rightarrow>
             build ''Validation Error''
               (''The request data is invalid. '' @ (if truthy m then toString m else [])))
      else if statusCode = 429 then
        build ''Rate Limit Exceeded'' ''Too many requests. Please wait before trying again.''
      else if statusCode = 500 \<or> statusCode = 502 \<or> statusCode = 503 \<or> statusCode = 504 then
        build ''Server Error''
          ''The Homebridge server encountered an error. Please try again later.''
      else build defaultMessage errorMessage)"

section \<open>The authenticated request\<close>

definition startsWith :: "string \<Rightarrow> string \<Rightarrow> bool" where
  "startsWith s prefix = (take (length prefix) s = prefix)"

text \<open>
  The pieces of \<^verbatim>\<open>homebridgeApiRequest\<close> (lines 201-237): the endpoint is given a
  leading slash when it has none (lines 212-215), and the request options are the object
  literal of lines 217-229, where \<^verbatim>\<open>body\<close> and \<^verbatim>\<open>qs\<close> are present when the caller
  passed them.
\<close>

definition ensure_leading_slash :: "string \<Rightarrow> string" where
  "ensure_leading_slash endpoint = (if \<not> startsWith endpoint ''/'' then ''/'' @ endpoint else endpoint)"

definition request_options ::
  "IHomebridgeCredentials \<Rightarrow> jsval \<Rightarrow> IHttpRequestMethods \<Rightarrow> string \<Rightarrow>
   (string \<times> jsval) list option \<Rightarrow> (string \<times> jsval) list option \<Rightarrow> IHttpRequestOptions" where
  "request_options credentials accessToken reqMethod endpoint reqBody reqQs =
     \<lparr> http_method = reqMethod,
       url = serverUrl credentials @ endpoint,
       headers = [(''Accept'', ''application/json''),
                  (''Content-Type'', ''application/json''),
                  (''Authorization'', ''Bearer '' @ toString accessToken)],
       body = reqBody,
       qs = reqQs,
       returnFullResponse = False,
       ignoreHttpStatusErrors = True \<rparr>"

text \<open>
  Credentials and token are resolved before anything is sent; their failures leave the
  function as they are. Only a failure of the retried transport call is normalised, with
  the endpoint as dispatched. The retry count is left at its default \<^verbatim>\<open>0\<close>.
\<close>

definition homebridgeApiRequest ::
  "exec_context \<Rightarrow> IHttpRequestMethods \<Rightarrow> string \<Rightarrow> (string \<times> jsval) list option \<Rightarrow>
   (string \<times> jsval) list option \<Rightarrow> nat \<Rightarrow> world \<Rightarrow> (thrown + jsval) \<times> world" where
  "homebridgeApiRequest ctx reqMethod endpoint reqBody reqQs itemIndex w =
     (case getCredentials ctx of
        Inl e \<Rightarrow> (Inl e, w)
      | Inr credentials \<Rightarrow>
          (case getAccessToken ctx itemIndex of
             Inl e \<Rightarrow> (Inl e, w)
           | Inr accessToken \<Rightarrow>
               (let endpoint' = ensure_leading_slash endpoint;
                    options = request_options credentials accessToken reqMethod endpoint' reqBody reqQs
                in
                case homebridgeApiRequestWithRetry ctx options 0 w of
                  (Inr response, w') \<Rightarrow> (Inr response, w')
                | (Inl error, w') \<Rightarrow>
                    (Inl (handleApiError error endpoint' (method_name reqMethod)), w'))))"

section \<open>Authentication\<close>

text \<open>
  What the \<^verbatim>\<open>catch\<close> clause of \<^verbatim>\<open>authenticate\<close> can receive: a rejection of the
  transport, or an exception raised inside the \<^verbatim>\<open>try\<close> block itself. It rethrows a
  \<^verbatim>\<open>NodeApiError\<close> built either from an object literal or from the caught value.
\<close>

datatype caught = Rejected http_error | Raised thrown

datatype auth_error =
    AuthNodeApiError api_error_fields
  | AuthNodeApiErrorOf caught

text \<open>
  The \<^verbatim>\<open>catch\<close> clause (lines 129-138). Only a transport rejection has a
  \<^verbatim>\<open>statusCode\<close> property; the exceptions of the \<^verbatim>\<open>try\<close> block have none.
\<close>

fun authenticate_catch :: "caught \<Rightarrow> auth_error" where
  "authenticate_catch (Rejected error) =
     (if err_statusCode error = Some 401 then
        AuthNodeApiError
          \<lparr> message = ''Authentication failed'',
            description = ''Invalid username, password, or 2FA code. Please check your credentials.'',
            httpCode = None, cause = None \<rparr>
      else AuthNodeApiErrorOf (Rejected error))"
| "authenticate_catch (Raised e) = AuthNodeApiErrorOf (Raised e)"

text \<open>The request options of \<^verbatim>\<open>authenticate\<close> (lines 102-116); the one-time code is
  part of the body when it is a non-empty string.\<close>

definition login_options :: "IHomebridgeCredentials \<Rightarrow> string option \<Rightarrow> IHttpRequestOptions" where
  "login_options credentials otpCode =
     \<lparr> http_method = POST,
       url = serverUrl credentials @ ''/api/auth/login'',
       headers = [(''Accept'', ''application/json''),
                  (''Content-Type'', ''application/json'')],
       body = Some ([(''username'', JStr (username credentials)),
                     (''password'', JStr (password credentials))] @
                    (case otpCode of
                       None \<Rightarrow> []
                     | Some c \<Rightarrow> if c \<noteq> [] then [(''otp'', JStr c)] else [])),
       qs = None,
       returnFullResponse = False,
       ignoreHttpStatusErrors = False \<rparr>"

definition authenticate ::
  "exec_context \<Rightarrow> IHomebridgeCredentials \<Rightarrow> string option \<Rightarrow> world \<Rightarrow> (auth_error + jsval) \<times> world" where
  "authenticate ctx credentials otpCode w =
     (let options = login_options credentials otpCode in
      case httpRequest ctx options w of
        (Inl error, w') \<Rightarrow> (Inl (authenticate_catch (Rejected error)), w')
      | (Inr response, w') \<Rightarrow>
          (case get_prop response ''access_token'' of
             Inl e \<Rightarrow> (Inl (authenticate_catch (Raised e)), w')
           | Inr token \<Rightarrow>
               if \<not> truthy token then
                 (Inl (authenticate_catch (Raised (NodeApiError
                     \<lparr> message = ''Login successful but no access token received'',
                       description = ''The Homebridge API did not return an access token.'',
                       httpCode = None, cause = None \<rparr>))), w')
               else (Inr token, w')))"

section \<open>Batches\<close>

record batch_operation =
  op_method :: IHttpRequestMethods
  op_endpoint :: string
  op_body :: "(string \<times> jsval) list option"
  op_qs :: "(string \<times> jsval) list option"

text \<open>
  The \<^verbatim>\<open>for\<close> loop of \<^verbatim>\<open>executeBatchOperations\<close> (lines 508-529), from index \<open>i\<close> on,
  over the operations not yet run.
\<close>

fun executeBatchOperations_loop ::
  "exec_context \<Rightarrow> batch_operation list \<Rightarrow> nat \<Rightarrow> jsval list \<Rightarrow> world \<Rightarrow> jsval list \<times> world" where
  "executeBatchOperations_loop ctx [] i results w = (results, w)"
| "executeBatchOperations_loop ctx (operation # rest) i results w =
     (case homebridgeApiRequest ctx (op_method operation) (op_endpoint operation)
             (op_body operation) (op_qs operation) i w of
        (Inr result, w') \<Rightarrow>
          executeBatchOperations_loop ctx rest (i + 1)
            (results @ [JObj [(''success'', JBool True), (''data'', result)]]) w'
      | (Inl error, w') \<Rightarrow>
          executeBatchOperations_loop ctx rest (i + 1)
            (results @ [JObj [(''success'', JBool False),
                              (''error'', JStr (ctx_errorMessage ctx error))]]) w')"

definition executeBatchOperations ::
  "exec_context \<Rightarrow> batch_operation list \<Rightarrow> world \<Rightarrow> jsval list \<times> world" where
  "executeBatchOperations ctx operations w = executeBatchOperations_loop ctx operations 0 [] w"

section \<open>Pagination\<close>

definition pageSize :: nat where
  "pageSize = 100"

text \<open>\<^verbatim>\<open>Array.isArray(response) ? response : [response]\<close>.\<close>

definition page_items :: "jsval \<Rightarrow> jsval list" where
  "page_items response = (case response of JArr xs \<Rightarrow> xs | _ \<Rightarrow> [response])"

text \<open>The query of one page, \<^verbatim>\<open>{ ...qs, page, limit: pageSize }\<close>: a key the caller's
  query already has keeps its place and takes the new value.\<close>

definition page_query :: "(string \<times> jsval) list \<Rightarrow> nat \<Rightarrow> (string \<times> jsval) list" where
  "page_query reqQs page =
     AList.update ''limit'' (JNum (int pageSize)) (AList.update ''page'' (JNum (int page)) reqQs)"

text \<open>
  The \<^verbatim>\<open>do { ... } while (true)\<close> loop of \<^verbatim>\<open>handlePaginatedRequest\<close> (lines 560-583).
  Nothing bounds the number of pages, so the loop is a partial function: \<open>None\<close> is a
  run that never returns. A failed request leaves the loop with its exception.
\<close>

partial_function (option) handlePaginatedRequest_loop ::
  "exec_context \<Rightarrow> IHttpRequestMethods \<Rightarrow> string \<Rightarrow> (string \<times> jsval) list \<Rightarrow> nat \<Rightarrow> int \<Rightarrow>
   nat \<Rightarrow> jsval list \<Rightarrow> world \<Rightarrow> ((thrown + jsval list) \<times> world) option" where
  "handlePaginatedRequest_loop ctx reqMethod endpoint reqQs itemIndex limit page allItems w =
     (case homebridgeApiRequest ctx reqMethod endpoint None (Some (page_query reqQs page))
             itemIndex w of
        (Inl e, w') \<Rightarrow> Some (Inl e, w')
      | (Inr response, w') \<Rightarrow>
          (let items = page_items response;
               allItems' = allItems @ items
           in
           if limit > 0 \<and> int (length allItems') \<ge> limit then
             Some (Inr (take (nat limit) allItems'), w')
           else if length items < pageSize then Some (Inr allItems', w')
           else handlePaginatedRequest_loop ctx reqMethod endpoint reqQs itemIndex limit
                  (page + 1) allItems' w'))"

definition handlePaginatedRequest ::
  "exec_context \<Rightarrow> IHttpRequestMethods \<Rightarrow> string \<Rightarrow> (string \<times> jsval) list \<Rightarrow> nat \<Rightarrow> int \<Rightarrow>
   world \<Rightarrow> ((thrown + jsval list) \<times> world) option" where
  "handlePaginatedRequest ctx reqMethod endpoint reqQs itemIndex limit w =
     handlePaginatedRequest_loop ctx reqMethod endpoint reqQs itemIndex limit 1 [] w"

section \<open>Notions used to state the properties\<close>

text \<open>The events of one retried call that started at \<open>retryCount\<close> and retried \<open>k\<close>
  times: every attempt sends the same options, with the back-off delay in between.\<close>

fun backoff_trace :: "IHttpRequestOptions \<Rightarrow> nat \<Rightarrow> nat \<Rightarrow> event list" where
  "backoff_trace options retryCount 0 = [Request options]"
| "backoff_trace options retryCount (Suc k) =
     Request options # Sleep (1000 * 2 ^ retryCount) # backoff_trace options (retryCount + 1) k"

fun is_request :: "event \<Rightarrow> bool" where
  "is_request (Request options) = True"
| "is_request (Sleep ms) = False"

definition count_requests :: "world \<Rightarrow> nat" where
  "count_requests w = length (filter is_request w)"

text \<open>The batch entry that records the outcome of one request; for a failure, with
  \<^verbatim>\<open>error.message\<close> as the host has it.\<close>

fun batch_entry :: "exec_context \<Rightarrow> thrown + jsval \<Rightarrow> jsval" where
  "batch_entry ctx (Inr result) = JObj [(''success'', JBool True), (''data'', result)]"
| "batch_entry ctx (Inl error) =
     JObj [(''success'', JBool False), (''error'', JStr (ctx_errorMessage ctx error))]"

text \<open>
  The token one upstream payload offers: its own truthy \<^verbatim>\<open>access_token\<close>, or else, when
  the payload is a non-empty sequence, the truthy \<^verbatim>\<open>access_token\<close> of its first element.
\<close>

definition upstream_token :: "jsval \<Rightarrow> jsval option" where
  "upstream_token payload =
     (case get_prop payload ''access_token'' of
        Inl e \<Rightarrow> None
      | Inr direct \<Rightarrow>
          if truthy direct then Some direct
          else
            (case payload of
               JArr (firstItem # others) \<Rightarrow>
                 (case get_prop firstItem ''access_token'' of
                    Inl e \<Rightarrow> None
                  | Inr nested \<Rightarrow> if truthy firstItem \<and> truthy nested then Some nested else None)
             | _ \<Rightarrow> None))"

text \<open>Request \<open>i\<close> of a batch, as \<^verbatim>\<open>executeBatchOperations\<close> issues it.\<close>

definition batch_request ::
  "exec_context \<Rightarrow> batch_operation \<Rightarrow> nat \<Rightarrow> world \<Rightarrow> (thrown + jsval) \<times> world" where
  "batch_request ctx operation i w =
     homebridgeApiRequest ctx (op_method operation) (op_endpoint operation)
       (op_body operation) (op_qs operation) i w"

text \<open>The \<^verbatim>\<open>page\<close> query parameter of a request, and the pages a run asked for.\<close>

definition requested_page :: "IHttpRequestOptions \<Rightarrow> jsval" where
  "requested_page options =
     (case qs options of
        None \<Rightarrow> JUndefined
      | Some q \<Rightarrow> (case map_of q ''page'' of None \<Rightarrow> JUndefined | Some p \<Rightarrow> p))"

fun pages_of :: "world \<Rightarrow> jsval list" where
  "pages_of [] = []"
| "pages_of (Request options # w) = requested_page options # pages_of w"
| "pages_of (Sleep ms # w) = pages_of w"

text \<open>The first token the input items offer, in their order.\<close>

fun first_upstream_token :: "INodeExecutionData list \<Rightarrow> jsval option" where
  "first_upstream_token [] = None"
| "first_upstream_token (item # rest) =
     (case upstream_token (json item) of
        Some t \<Rightarrow> Some t
      | None \<Rightarrow> first_upstream_token rest)"

section \<open>Example contexts\<close>

text \<open>
  An example of a host's error messages. An API error with code 404 reads the text the
  n8n-workflow library puts in place of the message for that status; every other
  exception reads the message it was constructed with.
\<close>

fun library_message :: "thrown \<Rightarrow> string" where
  "library_message (NodeApiError f) =
     (if httpCode f = Some ''404'' then ''The resource you are requesting could not be found''
      else message f)"
| "library_message e = constructor_message e"

definition sample_credentials :: raw_credentials where
  "sample_credentials =
     \<lparr> raw_serverUrl = Some ''http://host:8581/'', raw_username = Some ''admin'',
       raw_password = Some ''secret'', raw_otp = None \<rparr>"

definition resolved_sample_credentials :: IHomebridgeCredentials where
  "resolved_sample_credentials =
     \<lparr> serverUrl = ''http://host:8581'', username = ''admin'', password = ''secret'', otp = None \<rparr>"

definition status_error :: "int \<Rightarrow> http_error" where
  "status_error n =
     \<lparr> err_statusCode = Some n, err_response = None,
       err_message = Some ''Request failed'', err_error = JUndefined \<rparr>"

definition network_error :: http_error where
  "network_error =
     \<lparr> err_statusCode = None, err_response = None,
       err_message = Some ''getaddrinfo ENOTFOUND host'', err_error = JUndefined \<rparr>"

text \<open>A context with a manual token and no input, whose server fails the first
  \<open>failures\<close> requests with the given error and answers every later one.\<close>

definition flaky_ctx :: "http_error \<Rightarrow> nat \<Rightarrow> exec_context" where
  "flaky_ctx error failures =
     \<lparr> ctx_credentials = Some sample_credentials,
       ctx_accessToken = (\<lambda>i. ''tok123''),
       ctx_inputData = [],
       ctx_transport = (\<lambda>w options.
          if count_requests w < failures then Inl error
          else Inr (JObj [(''ok'', JBool True)])),
       ctx_errorMessage = library_message \<rparr>"

definition sample_options :: IHttpRequestOptions where
  "sample_options =
     \<lparr> http_method = GET, url = ''http://host:8581/api/accessories'',
       headers = [(''Accept'', ''application/json''), (''Content-Type'', ''application/json''),
                  (''Authorization'', ''Bearer tok123'')],
       body = None, qs = None, returnFullResponse = False, ignoreHttpStatusErrors = True \<rparr>"

text \<open>A failure whose status is only on the response, and is none of the listed ones.\<close>

definition teapot_error :: http_error where
  "teapot_error =
     \<lparr> err_statusCode = None,
       err_response = Some \<lparr> resp_statusCode = Some 418, resp_body = JStr ''short and stout'' \<rparr>,
       err_message = Some ''I am a teapot'', err_error = JUndefined \<rparr>"

text \<open>A rejection whose status 401 is only on the response.\<close>

definition response_401_error :: http_error where
  "response_401_error =
     \<lparr> err_statusCode = None,
       err_response = Some \<lparr> resp_statusCode = Some 401,
                             resp_body = JObj [(''message'', JStr ''Unauthorized'')] \<rparr>,
       err_message = Some ''Request failed with status code 401'', err_error = JUndefined \<rparr>"

text \<open>A context with a manual token and no input, whose server answers every request
  with the given body.\<close>

definition answering_ctx :: "jsval \<Rightarrow> exec_context" where
  "answering_ctx answer =
     \<lparr> ctx_credentials = Some sample_credentials,
       ctx_accessToken = (\<lambda>i. ''tok123''),
       ctx_inputData = [],
       ctx_transport = (\<lambda>w options. Inr answer),
       ctx_errorMessage = library_message \<rparr>"

text \<open>The two errors \<^verbatim>\<open>authenticate\<close> builds from object literals, the second one
  as it leaves the \<^verbatim>\<open>catch\<close> clause.\<close>

definition authentication_failed :: auth_error where
  "authentication_failed =
     AuthNodeApiError
       \<lparr> message = ''Authentication failed'',
         description = ''Invalid username, password, or 2FA code. Please check your credentials.'',
         httpCode = None, cause = None \<rparr>"

definition no_token_received :: auth_error where
  "no_token_received =
     AuthNodeApiErrorOf (Raised (NodeApiError
       \<lparr> message = ''Login successful but no access token received'',
         description = ''The Homebridge API did not return an access token.'',
         httpCode = None, cause = None \<rparr>))"

text \<open>A context whose server knows every path but \<^verbatim>\<open>/api/missing\<close>, and a batch of
  three requests, the second of them for that path.\<close>

definition routing_ctx :: exec_context where
  "routing_ctx =
     \<lparr> ctx_credentials = Some sample_credentials,
       ctx_accessToken = (\<lambda>i. ''tok123''),
       ctx_inputData = [],
       ctx_transport = (\<lambda>w options.
          if url options = ''http://host:8581/api/missing'' then Inl (status_error 404)
          else Inr (JObj [(''ok'', JBool True)])),
       ctx_errorMessage = library_message \<rparr>"

definition sample_batch :: "batch_operation list" where
  "sample_batch =
     [\<lparr> op_method = GET, op_endpoint = ''/api/accessories'', op_body = None, op_qs = None \<rparr>,
      \<lparr> op_method = GET, op_endpoint = ''api/missing'', op_body = None, op_qs = None \<rparr>,
      \<lparr> op_method = PUT, op_endpoint = ''/api/server/restart'', op_body = None, op_qs = None \<rparr>]"

text \<open>A context whose server holds pages of the given sizes (page \<open>n\<close> is the
  \<open>n\<close>-th one; beyond the last, pages are empty), and the options of the request for one
  page of it.\<close>

definition page_size_at :: "nat list \<Rightarrow> jsval \<Rightarrow> nat" where
  "page_size_at sizes p =
     (case p of
        JNum n \<Rightarrow> if 1 \<le> n \<and> nat n \<le> length sizes then sizes ! (nat n - 1) else 0
      | _ \<Rightarrow> 0)"

definition paged_ctx :: "nat list \<Rightarrow> exec_context" where
  "paged_ctx sizes =
     \<lparr> ctx_credentials = Some sample_credentials,
       ctx_accessToken = (\<lambda>i. ''tok123''),
       ctx_inputData = [],
       ctx_transport = (\<lambda>w options.
          Inr (JArr (replicate (page_size_at sizes (requested_page options)) (JObj [])))),
       ctx_errorMessage = library_message \<rparr>"

definition page_options :: "string \<Rightarrow> nat \<Rightarrow> IHttpRequestOptions" where
  "page_options endpoint page =
     request_options resolved_sample_credentials (JStr ''tok123'') GET
       (ensure_leading_slash endpoint) None (Some (page_query [] page))"

text \<open>A context with the given \<^verbatim>\<open>accessToken\<close> parameter and input items; the output of a
  login step as input, with the token in the payload and in the first element of a
  sequence payload.\<close>

definition chained_ctx :: "string \<Rightarrow> INodeExecutionData list \<Rightarrow> exec_context" where
  "chained_ctx token items =
     \<lparr> ctx_credentials = Some sample_credentials,
       ctx_accessToken = (\<lambda>i. token),
       ctx_inputData = items,
       ctx_transport = (\<lambda>w options. Inr (JObj [(''ok'', JBool True)])),
       ctx_errorMessage = library_message \<rparr>"

definition login_output :: "INodeExecutionData list" where
  "login_output = [\<lparr> json = JObj [(''access_token'', JStr ''abc'')] \<rparr>]"

definition sequence_output :: "INodeExecutionData list" where
  "sequence_output = [\<lparr> json = JArr [JObj [(''access_token'', JStr ''abc'')]] \<rparr>]"

section \<open>Credential resolution\<close>

lemma strip_trailing_slash_last:
  "strip_trailing_slash u = (if u \<noteq> [] \<and> last u = CHR ''/'' then butlast u else u)"
proof (cases u rule: rev_cases)
  case Nil
  then show ?thesis by (simp add: strip_trailing_slash_def endsWith_def)
next
  case (snoc v c)
  then show ?thesis by (simp add: strip_trailing_slash_def endsWith_def)
qed

lemma getCredentials_valid:
  assumes "ctx_credentials ctx = Some c" "raw_serverUrl c = Some u" "u \<noteq> []"
    and "\<not> falsy_string (raw_username c)" "\<not> falsy_string (raw_password c)"
  shows "\<exists>r. getCredentials ctx = Inr r \<and> serverUrl r = strip_trailing_slash u"
  using assms by (simp add: getCredentials_def)

lemma getCredentials_flaky: "getCredentials (flaky_ctx error failures) = Inr resolved_sample_credentials"
  by (simp add: getCredentials_def flaky_ctx_def sample_credentials_def
      resolved_sample_credentials_def strip_trailing_slash_def endsWith_def)

text \<open>
  Claim C8. Whenever the stored credentials pass validation (server URL, user name and
  password present and non-empty), the resolved server URL is the stored one without its
  last character when that character is a slash, and the stored one itself otherwise.
  Exactly one slash goes: a URL ending in two slashes keeps one. On a URL with no trailing
  slash the transformation changes nothing, also when applied again.
\<close>

theorem getCredentials_strips_one_trailing_slash:
  assumes "ctx_credentials ctx = Some c" and "raw_serverUrl c = Some u" and "u \<noteq> []"
    and "\<not> falsy_string (raw_username c)" and "\<not> falsy_string (raw_password c)"
  shows "\<exists>r. getCredentials ctx = Inr r \<and>
           (\<forall>v. u = v @ ''/'' \<longrightarrow> serverUrl r = v) \<and>
           (\<forall>v. u = v @ ''//'' \<longrightarrow> serverUrl r = v @ ''/'') \<and>
           (last u \<noteq> CHR ''/'' \<longrightarrow>
              serverUrl r = u \<and> strip_trailing_slash (serverUrl r) = serverUrl r)"
proof -
  from getCredentials_valid [OF assms] obtain r
    where r: "getCredentials ctx = Inr r" "serverUrl r = strip_trailing_slash u" by blast
  have "\<forall>v. u = v @ ''/'' \<longrightarrow> serverUrl r = v"
    by (simp add: r strip_trailing_slash_last)
  moreover have "\<forall>v. u = v @ ''//'' \<longrightarrow> serverUrl r = v @ ''/''"
    by (auto simp add: r strip_trailing_slash_last butlast_append)
  moreover have "last u \<noteq> CHR ''/'' \<longrightarrow>
      serverUrl r = u \<and> strip_trailing_slash (serverUrl r) = serverUrl r"
    by (simp add: r strip_trailing_slash_last)
  ultimately show ?thesis using r(1) by blast
qed

theorem getCredentials_strips_one_trailing_slash_witness:
  "ctx_credentials (flaky_ctx network_error 0) = Some sample_credentials \<and>
   raw_serverUrl sample_credentials = Some ''http://host:8581/'' \<and>
   (\<exists>r. getCredentials (flaky_ctx network_error 0) = Inr r \<and> serverUrl r = ''http://host:8581'')"
proof -
  have "\<exists>r. getCredentials (flaky_ctx network_error 0) = Inr r \<and>
           (\<forall>v. ''http://host:8581/'' = v @ ''/'' \<longrightarrow> serverUrl r = v) \<and>
           (\<forall>v. ''http://host:8581/'' = v @ ''//'' \<longrightarrow> serverUrl r = v @ ''/'') \<and>
           (last ''http://host:8581/'' \<noteq> CHR ''/'' \<longrightarrow>
              serverUrl r = ''http://host:8581/'' \<and> strip_trailing_slash (serverUrl r) = serverUrl r)"
    by (rule getCredentials_strips_one_trailing_slash [of "flaky_ctx network_error 0" sample_credentials])
       (simp_all add: flaky_ctx_def sample_credentials_def)
  then obtain r where "getCredentials (flaky_ctx network_error 0) = Inr r"
    and "\<forall>v. ''http://host:8581/'' = v @ ''/'' \<longrightarrow> serverUrl r = v" by blast
  then have "getCredentials (flaky_ctx network_error 0) = Inr r \<and> serverUrl r = ''http://host:8581''"
    by simp
  then show ?thesis by (auto simp add: flaky_ctx_def sample_credentials_def)
qed

section \<open>The retry policy\<close>

lemma retry_propagates:
  assumes "ctx_transport ctx w options = Inl error"
    and "\<not> (array_includes RETRY_STATUS_CODES (resolved_statusCode error) \<and> retryCount < MAX_RETRIES)"
  shows "homebridgeApiRequestWithRetry ctx options retryCount w = (Inl error, w @ [Request options])"
  using assms by (subst homebridgeApiRequestWithRetry.simps) (auto simp add: httpRequest_def)

lemma retry_again:
  assumes "ctx_transport ctx w options = Inl error"
    and "array_includes RETRY_STATUS_CODES (resolved_statusCode error)" and "retryCount < MAX_RETRIES"
  shows "homebridgeApiRequestWithRetry ctx options retryCount w =
         homebridgeApiRequestWithRetry ctx options (retryCount + 1)
           (w @ [Request options, Sleep (RETRY_DELAY * 2 ^ retryCount)])"
  using assms by (subst homebridgeApiRequestWithRetry.simps) (simp add: httpRequest_def)

lemma retry_success:
  assumes "ctx_transport ctx w options = Inr r"
  shows "homebridgeApiRequestWithRetry ctx options retryCount w = (Inr r, w @ [Request options])"
  using assms by (subst homebridgeApiRequestWithRetry.simps) (simp add: httpRequest_def)

lemma retry_trace:
  "\<exists>k \<le> MAX_RETRIES - retryCount.
     snd (homebridgeApiRequestWithRetry ctx options retryCount w) = w @ backoff_trace options retryCount k"
proof (induction ctx options retryCount w rule: homebridgeApiRequestWithRetry.induct)
  case (1 ctx options retryCount w)
  show ?case
  proof (cases "ctx_transport ctx w options")
    case (Inr r)
    have "snd (homebridgeApiRequestWithRetry ctx options retryCount w) = w @ backoff_trace options retryCount 0"
      by (simp add: retry_success [OF Inr])
    then show ?thesis by blast
  next
    case (Inl error)
    show ?thesis
    proof (cases "array_includes RETRY_STATUS_CODES (resolved_statusCode error) \<and> retryCount < MAX_RETRIES")
      case False
      have "snd (homebridgeApiRequestWithRetry ctx options retryCount w) = w @ backoff_trace options retryCount 0"
        by (simp add: retry_propagates [OF Inl False])
      then show ?thesis by blast
    next
      case True
      then have inc: "array_includes RETRY_STATUS_CODES (resolved_statusCode error)"
        and lt: "retryCount < MAX_RETRIES" by simp_all
      have h: "httpRequest ctx options w = (Inl error, w @ [Request options])"
        by (simp add: httpRequest_def Inl)
      from "1.IH" [OF h [symmetric] refl refl True refl]
      obtain k where k: "k \<le> MAX_RETRIES - (retryCount + 1)"
        and tr: "snd (homebridgeApiRequestWithRetry ctx options (retryCount + 1)
                   ((w @ [Request options]) @ [Sleep (RETRY_DELAY * 2 ^ retryCount)])) =
                 ((w @ [Request options]) @ [Sleep (RETRY_DELAY * 2 ^ retryCount)]) @
                 backoff_trace options (retryCount + 1) k"
        by blast
      have "snd (homebridgeApiRequestWithRetry ctx options retryCount w) =
            w @ backoff_trace options retryCount (Suc k)"
        using tr by (simp add: retry_again [OF Inl inc lt] RETRY_DELAY_def)
      moreover have "Suc k \<le> MAX_RETRIES - retryCount" using k lt by simp
      ultimately show ?thesis by blast
    qed
  qed
qed

lemma count_requests_backoff_trace: "count_requests (backoff_trace options r k) = k + 1"
  by (induction k arbitrary: r) (simp_all add: count_requests_def)

lemma requests_of_backoff_trace:
  "e \<in> set (backoff_trace options r k) \<Longrightarrow> is_request e \<Longrightarrow> e = Request options"
  by (induction k arbitrary: r) auto

lemma array_includes_retry:
  "array_includes RETRY_STATUS_CODES c \<longleftrightarrow> c \<in> Some ` {429, 500, 502, 503, 504}"
  by (cases c) (auto simp add: RETRY_STATUS_CODES_def)

lemma homebridgeApiRequest_resolved:
  assumes "getCredentials ctx = Inr cr" and "getAccessToken ctx itemIndex = Inr tok"
  shows "homebridgeApiRequest ctx reqMethod endpoint reqBody reqQs itemIndex w =
         (case homebridgeApiRequestWithRetry ctx
                 (request_options cr tok reqMethod (ensure_leading_slash endpoint) reqBody reqQs) 0 w of
            (Inr response, w') \<Rightarrow> (Inr response, w')
          | (Inl error, w') \<Rightarrow>
              (Inl (handleApiError error (ensure_leading_slash endpoint) (method_name reqMethod)), w'))"
  using assms by (simp add: homebridgeApiRequest_def Let_def)

lemma homebridgeApiRequest_trace:
  assumes "getCredentials ctx = Inr cr" and "getAccessToken ctx itemIndex = Inr tok"
  shows "snd (homebridgeApiRequest ctx reqMethod endpoint reqBody reqQs itemIndex w) =
         snd (homebridgeApiRequestWithRetry ctx
                (request_options cr tok reqMethod (ensure_leading_slash endpoint) reqBody reqQs) 0 w)"
  by (simp add: homebridgeApiRequest_resolved [OF assms] split: prod.splits sum.splits)

lemma flaky_transport:
  "ctx_transport (flaky_ctx error failures) w options =
     (if count_requests w < failures then Inl error else Inr (JObj [(''ok'', JBool True)]))"
  by (simp add: flaky_ctx_def)

lemma resolved_status_error: "resolved_statusCode (status_error n) = (if n \<noteq> 0 then Some n else None)"
  by (simp add: resolved_statusCode_def status_error_def)

text \<open>
  Claim C1. When an attempt fails with a resolved status among 429, 500, 502, 503, 504
  and the retry count is below 3, the call waits \<open>1000 * 2 ^ retryCount\<close> milliseconds
  and goes on as the call with the same options and the count one higher. A failure with
  any other (or no) status, or at count 3, comes back as it is, right after the attempt.
  So a call that starts at count 0 retries \<open>k\<close> times for some \<open>k\<close> up to 3, which
  makes \<open>k + 1\<close>, at most four, attempts, all with the same options and separated by
  delays of 1000, 2000 and 4000 milliseconds; and
  \<^verbatim>\<open>homebridgeApiRequest\<close> starts every retried call at count 0.
\<close>

theorem retry_policy_backoff:
  "(ctx_transport ctx w options = Inl error \<and>
      resolved_statusCode error \<in> Some ` {429, 500, 502, 503, 504} \<and> retryCount < 3 \<longrightarrow>
      homebridgeApiRequestWithRetry ctx options retryCount w =
      homebridgeApiRequestWithRetry ctx options (retryCount + 1)
        (w @ [Request options, Sleep (1000 * 2 ^ retryCount)])) \<and>
   (ctx_transport ctx w options = Inl error \<and>
      (resolved_statusCode error \<notin> Some ` {429, 500, 502, 503, 504} \<or> 3 \<le> retryCount) \<longrightarrow>
      homebridgeApiRequestWithRetry ctx options retryCount w = (Inl error, w @ [Request options])) \<and>
   (\<exists>k \<le> 3. snd (homebridgeApiRequestWithRetry ctx options 0 w) = w @ backoff_trace options 0 k \<and>
            count_requests (backoff_trace options 0 k) = k + 1) \<and>
   backoff_trace options 0 3 =
     [Request options, Sleep 1000, Request options, Sleep 2000, Request options, Sleep 4000,
      Request options] \<and>
   (getCredentials ctx = Inr cr \<and> getAccessToken ctx itemIndex = Inr tok \<longrightarrow>
      snd (homebridgeApiRequest ctx reqMethod endpoint reqBody reqQs itemIndex w) =
      snd (homebridgeApiRequestWithRetry ctx
             (request_options cr tok reqMethod (ensure_leading_slash endpoint) reqBody reqQs) 0 w))"
proof -
  have again: "ctx_transport ctx w options = Inl error \<and>
      resolved_statusCode error \<in> Some ` {429, 500, 502, 503, 504} \<and> retryCount < 3 \<longrightarrow>
      homebridgeApiRequestWithRetry ctx options retryCount w =
      homebridgeApiRequestWithRetry ctx options (retryCount + 1)
        (w @ [Request options, Sleep (1000 * 2 ^ retryCount)])"
    using retry_again [of ctx w options error retryCount]
    by (simp only: array_includes_retry MAX_RETRIES_def RETRY_DELAY_def) blast
  have stop: "ctx_transport ctx w options = Inl error \<and>
      (resolved_statusCode error \<notin> Some ` {429, 500, 502, 503, 504} \<or> 3 \<le> retryCount) \<longrightarrow>
      homebridgeApiRequestWithRetry ctx options retryCount w = (Inl error, w @ [Request options])"
    using retry_propagates [of ctx w options error retryCount]
    by (simp only: array_includes_retry MAX_RETRIES_def) (metis not_le)
  have bound: "\<exists>k \<le> 3. snd (homebridgeApiRequestWithRetry ctx options 0 w) = w @ backoff_trace options 0 k \<and>
            count_requests (backoff_trace options 0 k) = k + 1"
    using retry_trace [of 0 ctx options w]
    by (simp add: MAX_RETRIES_def count_requests_backoff_trace)
  have delays: "backoff_trace options 0 3 =
     [Request options, Sleep 1000, Request options, Sleep 2000, Request options, Sleep 4000,
      Request options]"
    by (simp add: numeral_3_eq_3)
  have top: "getCredentials ctx = Inr cr \<and> getAccessToken ctx itemIndex = Inr tok \<longrightarrow>
      snd (homebridgeApiRequest ctx reqMethod endpoint reqBody reqQs itemIndex w) =
      snd (homebridgeApiRequestWithRetry ctx
             (request_options cr tok reqMethod (ensure_leading_slash endpoint) reqBody reqQs) 0 w)"
    using homebridgeApiRequest_trace by blast
  from again stop bound delays top show ?thesis by (intro conjI)
qed

theorem retry_policy_backoff_witness:
  "homebridgeApiRequestWithRetry (flaky_ctx (status_error 503) 3) sample_options 0 [] =
     (Inr (JObj [(''ok'', JBool True)]),
      [Request sample_options, Sleep 1000, Request sample_options, Sleep 2000,
       Request sample_options, Sleep 4000, Request sample_options]) \<and>
   homebridgeApiRequestWithRetry (flaky_ctx (status_error 503) 9) sample_options 0 [] =
     (Inl (status_error 503),
      [Request sample_options, Sleep 1000, Request sample_options, Sleep 2000,
       Request sample_options, Sleep 4000, Request sample_options]) \<and>
   homebridgeApiRequestWithRetry (flaky_ctx (status_error 404) 9) sample_options 0 [] =
     (Inl (status_error 404), [Request sample_options])"
proof -
  let ?o = sample_options
  let ?e = "status_error 503"
  have step: "homebridgeApiRequestWithRetry (flaky_ctx ?e f) ?o r w =
              homebridgeApiRequestWithRetry (flaky_ctx ?e f) ?o (r + 1)
                (w @ [Request ?o, Sleep (1000 * 2 ^ r)])"
    if "count_requests w < f" and "r < 3" for f r w
    using retry_policy_backoff [of "flaky_ctx ?e f" w ?o ?e r, THEN conjunct1] that
    by (simp add: flaky_transport resolved_status_error)
  have stop: "homebridgeApiRequestWithRetry (flaky_ctx (status_error n) f) ?o r w =
              (Inl (status_error n), w @ [Request ?o])"
    if "count_requests w < f" and "n \<notin> {429, 500, 502, 503, 504} \<or> 3 \<le> r" for n f r w
    using retry_policy_backoff [of "flaky_ctx (status_error n) f" w ?o "status_error n" r,
        THEN conjunct2, THEN conjunct1] that
    by (auto simp add: flaky_transport resolved_status_error split: if_splits)
  let ?w1 = "[Request ?o, Sleep 1000]"
  let ?w2 = "[Request ?o, Sleep 1000, Request ?o, Sleep 2000]"
  let ?w3 = "[Request ?o, Sleep 1000, Request ?o, Sleep 2000, Request ?o, Sleep 4000]"
  have s0: "homebridgeApiRequestWithRetry (flaky_ctx ?e f) ?o 0 [] =
            homebridgeApiRequestWithRetry (flaky_ctx ?e f) ?o (Suc 0) ?w1"
    if "2 < f" for f
    using step [of "[]" f 0] that by (simp add: count_requests_def)
  have s1: "homebridgeApiRequestWithRetry (flaky_ctx ?e f) ?o (Suc 0) ?w1 =
            homebridgeApiRequestWithRetry (flaky_ctx ?e f) ?o (Suc (Suc 0)) ?w2"
    if "2 < f" for f
    using step [of ?w1 f "Suc 0"] that by (simp add: count_requests_def)
  have s2: "homebridgeApiRequestWithRetry (flaky_ctx ?e f) ?o (Suc (Suc 0)) ?w2 =
            homebridgeApiRequestWithRetry (flaky_ctx ?e f) ?o (Suc (Suc (Suc 0))) ?w3"
    if "2 < f" for f
    using step [of ?w2 f "Suc (Suc 0)"] that by (simp add: count_requests_def)
  have ok: "homebridgeApiRequestWithRetry (flaky_ctx ?e 3) ?o (Suc (Suc (Suc 0))) ?w3 =
            (Inr (JObj [(''ok'', JBool True)]), ?w3 @ [Request ?o])"
    by (subst homebridgeApiRequestWithRetry.simps)
       (simp add: httpRequest_def flaky_transport count_requests_def)
  have exhausted: "homebridgeApiRequestWithRetry (flaky_ctx ?e 9) ?o (Suc (Suc (Suc 0))) ?w3 =
            (Inl ?e, ?w3 @ [Request ?o])"
    using stop [of ?w3 9 503 "Suc (Suc (Suc 0))"] by (simp add: count_requests_def)
  have nf: "homebridgeApiRequestWithRetry (flaky_ctx (status_error 404) 9) ?o 0 [] =
            (Inl (status_error 404), [Request ?o])"
    using stop [of "[]" 9 404 0] by (simp add: count_requests_def)
  show ?thesis using s0 [of 3] s1 [of 3] s2 [of 3] ok s0 [of 9] s1 [of 9] s2 [of 9] exhausted nf
    by simp
qed

text \<open>
  Claim C9. A failure that carries no status code, neither as \<^verbatim>\<open>error.statusCode\<close> nor
  as \<^verbatim>\<open>error.response.statusCode\<close>, is never retried, whatever the retry count: the
  error comes back unchanged after the one attempt, and no delay is taken.
\<close>

theorem retry_skips_statusless_failure:
  assumes "ctx_transport ctx w options = Inl error"
    and "err_statusCode error = None"
    and "case err_response error of None \<Rightarrow> True | Some r \<Rightarrow> resp_statusCode r = None"
  shows "homebridgeApiRequestWithRetry ctx options retryCount w = (Inl error, w @ [Request options])"
proof -
  have "resolved_statusCode error = None"
    using assms(2,3) by (simp add: resolved_statusCode_def split: option.splits)
  then have "\<not> (array_includes RETRY_STATUS_CODES (resolved_statusCode error) \<and> retryCount < MAX_RETRIES)"
    by simp
  with assms(1) show ?thesis by (rule retry_propagates)
qed

theorem retry_skips_statusless_failure_witness:
  "ctx_transport (flaky_ctx network_error 9) [] sample_options = Inl network_error \<and>
   err_statusCode network_error = None \<and> err_response network_error = None \<and>
   homebridgeApiRequestWithRetry (flaky_ctx network_error 9) sample_options 0 [] =
     (Inl network_error, [Request sample_options])"
proof -
  have t: "ctx_transport (flaky_ctx network_error 9) [] sample_options = Inl network_error"
    by (simp add: flaky_transport count_requests_def)
  have s: "err_statusCode network_error = None" and r: "err_response network_error = None"
    by (simp_all add: network_error_def)
  have "homebridgeApiRequestWithRetry (flaky_ctx network_error 9) sample_options 0 [] =
          (Inl network_error, [] @ [Request sample_options])"
    by (rule retry_skips_statusless_failure [OF t s]) (simp add: r)
  with t s r show ?thesis by simp
qed

section \<open>Error normalisation of failed requests\<close>

lemma int_to_string_500: "int_to_string 500 = ''500''"
  by code_simp

text \<open>
  Claim C3, as stated, fails: a failure with no status code at all is given the status
  500 before the \<^verbatim>\<open>switch\<close>, and so becomes a \<^verbatim>\<open>Server Error\<close> with the fixed
  server-error description, not the default message with the raw error message.
\<close>

theorem handleApiError_no_status_counterexample:
  "resolved_statusCode network_error = None \<and>
   handleApiError network_error ''/api/accessories'' ''GET'' =
     NodeApiError \<lparr> message = ''Server Error'',
       description = ''The Homebridge server encountered an error. Please try again later.'',
       httpCode = Some ''500'', cause = Some (JObj []) \<rparr> \<and>
   constructor_message (handleApiError network_error ''/api/accessories'' ''GET'') \<noteq>
     ''Homebridge API Error (GET /api/accessories)''"
  by (simp add: handleApiError_def resolved_statusCode_def network_error_def int_to_string_500)

text \<open>
  Claim C3, amended. A failure whose resolved status is present, non-zero and none of
  400, 401, 403, 404, 422, 429, 500, 502, 503, 504 is normalised to the message
  \<^verbatim>\<open>Homebridge API Error (<METHOD> <path>)\<close>, with the raw error message as its
  description (\<^verbatim>\<open>Unknown error\<close> when the failure has none or an empty one) and the
  status as its code. A failure with no status, or status 0, is normalised as status 500.
\<close>

theorem handleApiError_default:
  "(resolved_statusCode error = Some s \<and> s \<noteq> 0 \<and>
      s \<notin> {400, 401, 403, 404, 422, 429, 500, 502, 503, 504} \<longrightarrow>
      (\<exists>c. handleApiError error endpoint methodName =
         NodeApiError \<lparr> message = ''Homebridge API Error ('' @ methodName @ '' '' @ endpoint @ '')'',
           description = (case err_message error of
                            None \<Rightarrow> ''Unknown error''
                          | Some m \<Rightarrow> if m \<noteq> [] then m else ''Unknown error''),
           httpCode = Some (int_to_string s), cause = c \<rparr>)) \<and>
   (resolved_statusCode error = None \<or> resolved_statusCode error = Some 0 \<longrightarrow>
      (\<exists>c. handleApiError error endpoint methodName =
         NodeApiError \<lparr> message = ''Server Error'',
           description = ''The Homebridge server encountered an error. Please try again later.'',
           httpCode = Some ''500'', cause = c \<rparr>))"
proof (intro conjI impI)
  assume "resolved_statusCode error = Some s \<and> s \<noteq> 0 \<and>
      s \<notin> {400, 401, 403, 404, 422, 429, 500, 502, 503, 504}"
  then show "\<exists>c. handleApiError error endpoint methodName =
         NodeApiError \<lparr> message = ''Homebridge API Error ('' @ methodName @ '' '' @ endpoint @ '')'',
           description = (case err_message error of
                            None \<Rightarrow> ''Unknown error''
                          | Some m \<Rightarrow> if m \<noteq> [] then m else ''Unknown error''),
           httpCode = Some (int_to_string s), cause = c \<rparr>"
    by (simp add: handleApiError_def Let_def)
next
  assume "resolved_statusCode error = None \<or> resolved_statusCode error = Some 0"
  then show "\<exists>c. handleApiError error endpoint methodName =
         NodeApiError \<lparr> message = ''Server Error'',
           description = ''The Homebridge server encountered an error. Please try again later.'',
           httpCode = Some ''500'', cause = c \<rparr>"
    by (auto simp add: handleApiError_def Let_def int_to_string_500)
qed

lemma int_to_string_418: "int_to_string 418 = ''418''"
  by code_simp

theorem handleApiError_default_witness:
  "resolved_statusCode teapot_error = Some 418 \<and>
   (\<exists>c. handleApiError teapot_error ''/api/status'' ''GET'' =
      NodeApiError \<lparr> message = ''Homebridge API Error (GET /api/status)'',
        description = ''I am a teapot'', httpCode = Some ''418'', cause = c \<rparr>) \<and>
   resolved_statusCode network_error = None \<and>
   (\<exists>c. handleApiError network_error ''/api/status'' ''GET'' =
      NodeApiError \<lparr> message = ''Server Error'',
        description = ''The Homebridge server encountered an error. Please try again later.'',
        httpCode = Some ''500'', cause = c \<rparr>)"
proof -
  have r: "resolved_statusCode teapot_error = Some 418"
    by (simp add: resolved_statusCode_def teapot_error_def)
  have m: "err_message teapot_error = Some ''I am a teapot''"
    by (simp add: teapot_error_def)
  have n: "resolved_statusCode network_error = None"
    by (simp add: resolved_statusCode_def network_error_def)
  from handleApiError_default [of teapot_error 418 "''/api/status''" "''GET''", THEN conjunct1] r
  have 1: "\<exists>c. handleApiError teapot_error ''/api/status'' ''GET'' =
      NodeApiError \<lparr> message = ''Homebridge API Error (GET /api/status)'',
        description = ''I am a teapot'', httpCode = Some ''418'', cause = c \<rparr>"
    by (simp add: m int_to_string_418)
  from handleApiError_default [of network_error _ "''/api/status''" "''GET''", THEN conjunct2] n
  have 2: "\<exists>c. handleApiError network_error ''/api/status'' ''GET'' =
      NodeApiError \<lparr> message = ''Server Error'',
        description = ''The Homebridge server encountered an error. Please try again later.'',
        httpCode = Some ''500'', cause = c \<rparr>"
    by simp
  from r 1 n 2 show ?thesis by (intro conjI)
qed

section \<open>Logging in\<close>

lemma authenticate_trace:
  "snd (authenticate ctx credentials otpCode w) = w @ [Request (login_options credentials otpCode)]"
  by (simp add: authenticate_def httpRequest_def Let_def split: sum.splits)

lemma authenticate_rejected:
  assumes "ctx_transport ctx w (login_options credentials otpCode) = Inl error"
  shows "fst (authenticate ctx credentials otpCode w) = Inl (authenticate_catch (Rejected error))"
  using assms by (simp add: authenticate_def httpRequest_def)

lemma authenticate_answered:
  assumes "ctx_transport ctx w (login_options credentials otpCode) = Inr response"
    and "get_prop response ''access_token'' = Inr token"
  shows "fst (authenticate ctx credentials otpCode w) =
           (if truthy token then Inr token else Inl no_token_received)"
  using assms by (simp add: authenticate_def httpRequest_def no_token_received_def)

lemma authenticate_raised:
  assumes "ctx_transport ctx w (login_options credentials otpCode) = Inr response"
    and "get_prop response ''access_token'' = Inl e"
  shows "fst (authenticate ctx credentials otpCode w) = Inl (AuthNodeApiErrorOf (Raised e))"
  using assms by (simp add: authenticate_def httpRequest_def)

text \<open>
  What \<^verbatim>\<open>authenticate\<close> does, case by case. It hands exactly one request to the
  transport, a POST to the server URL followed by \<^verbatim>\<open>/api/auth/login\<close>, and takes no
  delay, whatever the answer: nothing is retried. A rejection whose own
  \<^verbatim>\<open>statusCode\<close> is 401 fails with the \<^verbatim>\<open>Authentication failed\<close> error; any other
  rejection fails with the API error made from the rejection itself. An answer whose
  \<^verbatim>\<open>access_token\<close> reads as missing or falsy fails with the API error made from
  \<^verbatim>\<open>Login successful but no access token received\<close> (raised inside the \<^verbatim>\<open>try\<close>
  block, it passes through the \<^verbatim>\<open>catch\<close> clause); an answer on which reading
  \<^verbatim>\<open>access_token\<close> raises, that is \<^verbatim>\<open>null\<close> or \<^verbatim>\<open>undefined\<close>, fails with the API
  error made from that exception; and an answer with a truthy \<^verbatim>\<open>access_token\<close> returns
  that token.
\<close>

lemma authenticate_cases:
  "snd (authenticate ctx credentials otpCode w) = w @ [Request (login_options credentials otpCode)] \<and>
   http_method (login_options credentials otpCode) = POST \<and>
   url (login_options credentials otpCode) = serverUrl credentials @ ''/api/auth/login'' \<and>
   (ctx_transport ctx w (login_options credentials otpCode) = Inl error \<and>
      err_statusCode error = Some 401 \<longrightarrow>
      fst (authenticate ctx credentials otpCode w) = Inl authentication_failed) \<and>
   (ctx_transport ctx w (login_options credentials otpCode) = Inr response \<and>
      get_prop response ''access_token'' = Inr token \<and> \<not> truthy token \<longrightarrow>
      fst (authenticate ctx credentials otpCode w) = Inl no_token_received) \<and>
   (ctx_transport ctx w (login_options credentials otpCode) = Inl error \<and>
      err_statusCode error \<noteq> Some 401 \<longrightarrow>
      fst (authenticate ctx credentials otpCode w) = Inl (AuthNodeApiErrorOf (Rejected error))) \<and>
   (ctx_transport ctx w (login_options credentials otpCode) = Inr response \<and>
      get_prop response ''access_token'' = Inr token \<and> truthy token \<longrightarrow>
      fst (authenticate ctx credentials otpCode w) = Inr token) \<and>
   (ctx_transport ctx w (login_options credentials otpCode) = Inr response \<and>
      get_prop response ''access_token'' = Inl raised \<longrightarrow>
      fst (authenticate ctx credentials otpCode w) = Inl (AuthNodeApiErrorOf (Raised raised)))"
proof (intro conjI impI)
  show "snd (authenticate ctx credentials otpCode w) = w @ [Request (login_options credentials otpCode)]"
    by (rule authenticate_trace)
  show "http_method (login_options credentials otpCode) = POST"
    by (simp add: login_options_def)
  show "url (login_options credentials otpCode) = serverUrl credentials @ ''/api/auth/login''"
    by (simp add: login_options_def)
next
  assume "ctx_transport ctx w (login_options credentials otpCode) = Inl error \<and>
      err_statusCode error = Some 401"
  then show "fst (authenticate ctx credentials otpCode w) = Inl authentication_failed"
    by (simp add: authenticate_rejected authentication_failed_def)
next
  assume "ctx_transport ctx w (login_options credentials otpCode) = Inr response \<and>
      get_prop response ''access_token'' = Inr token \<and> \<not> truthy token"
  then show "fst (authenticate ctx credentials otpCode w) = Inl no_token_received"
    by (simp add: authenticate_answered)
next
  assume "ctx_transport ctx w (login_options credentials otpCode) = Inl error \<and>
      err_statusCode error \<noteq> Some 401"
  then show "fst (authenticate ctx credentials otpCode w) = Inl (AuthNodeApiErrorOf (Rejected error))"
    by (simp add: authenticate_rejected)
next
  assume "ctx_transport ctx w (login_options credentials otpCode) = Inr response \<and>
      get_prop response ''access_token'' = Inr token \<and> truthy token"
  then show "fst (authenticate ctx credentials otpCode w) = Inr token"
    by (simp add: authenticate_answered)
next
  assume "ctx_transport ctx w (login_options credentials otpCode) = Inr response \<and>
      get_prop response ''access_token'' = Inl raised"
  then show "fst (authenticate ctx credentials otpCode w) = Inl (AuthNodeApiErrorOf (Raised raised))"
    by (simp add: authenticate_raised)
qed

lemma authenticate_examples:
  "fst (authenticate (flaky_ctx (status_error 401) 1) resolved_sample_credentials None []) =
     Inl authentication_failed \<and>
   fst (authenticate (flaky_ctx (status_error 503) 1) resolved_sample_credentials None []) =
     Inl (AuthNodeApiErrorOf (Rejected (status_error 503))) \<and>
   snd (authenticate (flaky_ctx (status_error 503) 1) resolved_sample_credentials None []) =
     [Request (login_options resolved_sample_credentials None)] \<and>
   fst (authenticate (answering_ctx (JObj [(''token_type'', JStr ''Bearer'')]))
          resolved_sample_credentials None []) = Inl no_token_received \<and>
   fst (authenticate (answering_ctx (JObj [(''access_token'', JStr ''tok123'')]))
          resolved_sample_credentials None []) = Inr (JStr ''tok123'')"
proof -
  let ?c = resolved_sample_credentials
  let ?o = "login_options ?c None"
  note T = authenticate_cases [where credentials = ?c and otpCode = None and w = "[]"]
  have a: "fst (authenticate (flaky_ctx (status_error 401) 1) ?c None []) = Inl authentication_failed"
    using T [of "flaky_ctx (status_error 401) 1" "status_error 401"]
    by (simp add: flaky_transport count_requests_def status_error_def)
  have b: "fst (authenticate (flaky_ctx (status_error 503) 1) ?c None []) =
             Inl (AuthNodeApiErrorOf (Rejected (status_error 503)))"
    using T [of "flaky_ctx (status_error 503) 1" "status_error 503"]
    by (simp add: flaky_transport count_requests_def status_error_def)
  have c: "snd (authenticate (flaky_ctx (status_error 503) 1) ?c None []) = [Request ?o]"
    using T [of "flaky_ctx (status_error 503) 1"] by simp
  have d: "fst (authenticate (answering_ctx (JObj [(''token_type'', JStr ''Bearer'')])) ?c None []) =
             Inl no_token_received"
    using T [of "answering_ctx (JObj [(''token_type'', JStr ''Bearer'')])" _
               "JObj [(''token_type'', JStr ''Bearer'')]" JUndefined]
    by (simp add: answering_ctx_def)
  have e: "fst (authenticate (answering_ctx (JObj [(''access_token'', JStr ''tok123'')])) ?c None []) =
             Inr (JStr ''tok123'')"
    using T [of "answering_ctx (JObj [(''access_token'', JStr ''tok123'')])" _
               "JObj [(''access_token'', JStr ''tok123'')]" "JStr ''tok123''"]
    by (simp add: answering_ctx_def)
  from a b c d e show ?thesis by (intro conjI)
qed

text \<open>
  Claim C4 does not hold of the code, in two places where \<^verbatim>\<open>authenticate\<close> misses a
  case. A login that succeeds with the body \<^verbatim>\<open>null\<close> has no access token, yet the
  presence test reads \<^verbatim>\<open>response.access_token\<close> on it and raises a \<^verbatim>\<open>TypeError\<close>;
  the \<^verbatim>\<open>catch\<close> clause wraps that exception, and the error that comes out is not the
  one saying that no access token was received. And a rejection that carries its status
  401 on \<^verbatim>\<open>error.response.statusCode\<close> only, where the retry policy and the error
  normaliser both look for it, is not recognised by the test \<^verbatim>\<open>error.statusCode === 401\<close>:
  it is wrapped like any other failure instead of failing with
  \<^verbatim>\<open>Authentication failed\<close>. In both runs one request is sent.
\<close>

theorem authenticate_misses_null_answer_and_response_status:
  "authenticate (answering_ctx JNull) resolved_sample_credentials None [] =
     (Inl (AuthNodeApiErrorOf (Raised (cannot_read ''null'' ''access_token''))),
      [Request (login_options resolved_sample_credentials None)]) \<and>
   AuthNodeApiErrorOf (Raised (cannot_read ''null'' ''access_token'')) \<noteq> no_token_received \<and>
   resolved_statusCode response_401_error = Some 401 \<and>
   authenticate (flaky_ctx response_401_error 1) resolved_sample_credentials None [] =
     (Inl (AuthNodeApiErrorOf (Rejected response_401_error)),
      [Request (login_options resolved_sample_credentials None)]) \<and>
   AuthNodeApiErrorOf (Rejected response_401_error) \<noteq> authentication_failed"
proof -
  let ?c = resolved_sample_credentials
  have n: "authenticate (answering_ctx JNull) ?c None [] =
     (Inl (AuthNodeApiErrorOf (Raised (cannot_read ''null'' ''access_token''))),
      [Request (login_options ?c None)])"
    by (simp add: authenticate_def httpRequest_def answering_ctx_def)
  have d: "AuthNodeApiErrorOf (Raised (cannot_read ''null'' ''access_token'')) \<noteq> no_token_received"
    by (simp add: no_token_received_def cannot_read_def)
  have r: "resolved_statusCode response_401_error = Some 401"
    by (simp add: resolved_statusCode_def response_401_error_def)
  have u: "authenticate (flaky_ctx response_401_error 1) ?c None [] =
     (Inl (AuthNodeApiErrorOf (Rejected response_401_error)), [Request (login_options ?c None)])"
    by (simp add: authenticate_def httpRequest_def flaky_transport count_requests_def
        response_401_error_def)
  have e: "AuthNodeApiErrorOf (Rejected response_401_error) \<noteq> authentication_failed"
    by (simp add: authentication_failed_def)
  from n d r u e show ?thesis by (intro conjI)
qed

section \<open>The batch runner\<close>

lemma batch_loop_Cons:
  "executeBatchOperations_loop ctx (operation # rest) i results w =
     executeBatchOperations_loop ctx rest (i + 1)
       (results @ [batch_entry ctx (fst (batch_request ctx operation i w))])
       (snd (batch_request ctx operation i w))"
  by (simp add: batch_request_def split: prod.splits sum.splits)

lemma batch_loop_append:
  "executeBatchOperations_loop ctx (xs @ ys) i results w =
     (case executeBatchOperations_loop ctx xs i results w of
        (rs, w') \<Rightarrow> executeBatchOperations_loop ctx ys (i + length xs) rs w')"
proof (induction xs arbitrary: i results w)
  case Nil
  show ?case by simp
next
  case (Cons x xs)
  show ?case by (simp only: append_Cons batch_loop_Cons Cons.IH) simp
qed

lemma batch_loop_results:
  "fst (executeBatchOperations_loop ctx ops i results w) =
     results @ fst (executeBatchOperations_loop ctx ops i [] w) \<and>
   snd (executeBatchOperations_loop ctx ops i results w) =
     snd (executeBatchOperations_loop ctx ops i [] w)"
proof (induction ops arbitrary: i results w)
  case Nil
  show ?case by simp
next
  case (Cons x xs)
  let ?e = "batch_entry ctx (fst (batch_request ctx x i w))"
  let ?w = "snd (batch_request ctx x i w)"
  from Cons.IH [of "i + 1" "results @ [?e]" ?w] Cons.IH [of "i + 1" "[?e]" ?w]
  show ?case by (simp only: batch_loop_Cons) simp
qed

lemma batch_loop_length:
  "length (fst (executeBatchOperations_loop ctx ops i results w)) = length results + length ops"
proof (induction ops arbitrary: i results w)
  case Nil
  show ?case by simp
next
  case (Cons x xs)
  show ?case by (simp only: batch_loop_Cons Cons.IH) simp
qed

lemma batch_snoc:
  "executeBatchOperations ctx (xs @ [x]) w =
     (fst (executeBatchOperations ctx xs w) @
        [batch_entry ctx (fst (batch_request ctx x (length xs) (snd (executeBatchOperations ctx xs w))))],
      snd (batch_request ctx x (length xs) (snd (executeBatchOperations ctx xs w))))"
proof -
  obtain rs w' where p: "executeBatchOperations_loop ctx xs 0 [] w = (rs, w')"
    by (cases "executeBatchOperations_loop ctx xs 0 [] w")
  have "executeBatchOperations_loop ctx (xs @ [x]) 0 [] w =
        executeBatchOperations_loop ctx [x] (length xs) rs w'"
    by (simp only: batch_loop_append p) simp
  also have "\<dots> = (rs @ [batch_entry ctx (fst (batch_request ctx x (length xs) w'))],
                   snd (batch_request ctx x (length xs) w'))"
    by (simp only: batch_loop_Cons executeBatchOperations_loop.simps(1))
  finally show ?thesis by (simp add: executeBatchOperations_def p)
qed

lemma batch_length: "length (fst (executeBatchOperations ctx ops w)) = length ops"
  by (simp add: executeBatchOperations_def batch_loop_length)

lemma batch_prefix:
  assumes "n \<le> length ops"
  shows "take n (fst (executeBatchOperations ctx ops w)) = fst (executeBatchOperations ctx (take n ops) w)"
proof -
  obtain rs w' where p: "executeBatchOperations_loop ctx (take n ops) 0 [] w = (rs, w')"
    by (cases "executeBatchOperations_loop ctx (take n ops) 0 [] w")
  have len: "length rs = n"
    using batch_loop_length [of ctx "take n ops" 0 "[]" w] p assms by simp
  have "executeBatchOperations_loop ctx (take n ops @ drop n ops) 0 [] w =
        executeBatchOperations_loop ctx (drop n ops) (0 + length (take n ops)) rs w'"
    by (simp only: batch_loop_append p) simp
  then have "fst (executeBatchOperations ctx ops w) =
        rs @ fst (executeBatchOperations_loop ctx (drop n ops) (0 + length (take n ops)) [] w')"
    using batch_loop_results [of ctx "drop n ops" "0 + length (take n ops)" rs w']
    by (simp add: executeBatchOperations_def)
  then show ?thesis using len p by (simp add: executeBatchOperations_def)
qed

text \<open>
  Claim C5. The batch result has one entry per operation, in the order of the operations.
  Entry \<open>i\<close> records the outcome of request \<open>i\<close>, issued with item index \<open>i\<close> in the
  world the first \<open>i\<close> operations left behind, whatever their outcomes were:
  \<^verbatim>\<open>{ success: true, data }\<close> when it returned, \<^verbatim>\<open>{ success: false, error: message }\<close>
  when it failed, the message being \<^verbatim>\<open>error.message\<close> of the exception caught. The batch of the first \<open>i + 1\<close> operations ends in the world that
  request left, so every request is issued, after a failure as after a success.
\<close>

theorem executeBatchOperations_entries:
  "length (fst (executeBatchOperations ctx ops w)) = length ops \<and>
   (\<forall>i < length ops.
      fst (executeBatchOperations ctx ops w) ! i =
        batch_entry ctx (fst (batch_request ctx (ops ! i) i
                            (snd (executeBatchOperations ctx (take i ops) w)))) \<and>
      snd (executeBatchOperations ctx (take (Suc i) ops) w) =
        snd (batch_request ctx (ops ! i) i (snd (executeBatchOperations ctx (take i ops) w))))"
proof (intro conjI allI impI)
  show "length (fst (executeBatchOperations ctx ops w)) = length ops"
    by (rule batch_length)
next
  fix i assume i: "i < length ops"
  let ?r = "batch_request ctx (ops ! i) i (snd (executeBatchOperations ctx (take i ops) w))"
  have snoc: "executeBatchOperations ctx (take (Suc i) ops) w =
              (fst (executeBatchOperations ctx (take i ops) w) @ [batch_entry ctx (fst ?r)], snd ?r)"
    using i by (simp add: take_Suc_conv_app_nth batch_snoc)
  have "fst (executeBatchOperations ctx ops w) ! i =
        take (Suc i) (fst (executeBatchOperations ctx ops w)) ! i"
    by simp
  also have "\<dots> = fst (executeBatchOperations ctx (take (Suc i) ops) w) ! i"
    using i by (simp add: batch_prefix)
  also have "\<dots> = batch_entry ctx (fst ?r)"
    using i by (simp add: snoc nth_append batch_length)
  finally show "fst (executeBatchOperations ctx ops w) ! i = batch_entry ctx (fst ?r)" .
  show "snd (executeBatchOperations ctx (take (Suc i) ops) w) = snd ?r"
    by (simp add: snoc)
qed

lemma homebridgeApiRequest_answered:
  assumes "getCredentials ctx = Inr cr" and "getAccessToken ctx itemIndex = Inr tok"
    and "ctx_transport ctx w
           (request_options cr tok reqMethod (ensure_leading_slash endpoint) reqBody reqQs) = Inr r"
  shows "homebridgeApiRequest ctx reqMethod endpoint reqBody reqQs itemIndex w =
         (Inr r, w @ [Request (request_options cr tok reqMethod (ensure_leading_slash endpoint) reqBody reqQs)])"
  by (simp add: homebridgeApiRequest_resolved [OF assms(1,2)] retry_success [OF assms(3)])

lemma homebridgeApiRequest_rejected:
  assumes "getCredentials ctx = Inr cr" and "getAccessToken ctx itemIndex = Inr tok"
    and "ctx_transport ctx w
           (request_options cr tok reqMethod (ensure_leading_slash endpoint) reqBody reqQs) = Inl error"
    and "\<not> array_includes RETRY_STATUS_CODES (resolved_statusCode error)"
  shows "homebridgeApiRequest ctx reqMethod endpoint reqBody reqQs itemIndex w =
         (Inl (handleApiError error (ensure_leading_slash endpoint) (method_name reqMethod)),
          w @ [Request (request_options cr tok reqMethod (ensure_leading_slash endpoint) reqBody reqQs)])"
proof -
  have "\<not> (array_includes RETRY_STATUS_CODES (resolved_statusCode error) \<and> 0 < MAX_RETRIES)"
    using assms(4) by simp
  from retry_propagates [OF assms(3) this] show ?thesis
    by (simp add: homebridgeApiRequest_resolved [OF assms(1,2)])
qed

lemma getCredentials_routing: "getCredentials routing_ctx = Inr resolved_sample_credentials"
  by (simp add: getCredentials_def routing_ctx_def sample_credentials_def
      resolved_sample_credentials_def strip_trailing_slash_def endsWith_def)

lemma getAccessToken_routing: "getAccessToken routing_ctx i = Inr (JStr ''tok123'')"
  by (simp add: getAccessToken_def routing_ctx_def)

lemma routing_found:
  assumes "serverUrl resolved_sample_credentials @ ensure_leading_slash endpoint \<noteq>
           ''http://host:8581/api/missing''"
  shows "fst (homebridgeApiRequest routing_ctx reqMethod endpoint reqBody reqQs i w) =
         Inr (JObj [(''ok'', JBool True)])"
proof -
  have "ctx_transport routing_ctx w
          (request_options resolved_sample_credentials (JStr ''tok123'') reqMethod
             (ensure_leading_slash endpoint) reqBody reqQs) = Inr (JObj [(''ok'', JBool True)])"
    using assms by (simp add: routing_ctx_def request_options_def)
  from homebridgeApiRequest_answered [OF getCredentials_routing getAccessToken_routing this]
  show ?thesis by simp
qed

lemma routing_missing:
  assumes "serverUrl resolved_sample_credentials @ ensure_leading_slash endpoint =
           ''http://host:8581/api/missing''"
  shows "fst (homebridgeApiRequest routing_ctx reqMethod endpoint reqBody reqQs i w) =
         Inl (handleApiError (status_error 404) (ensure_leading_slash endpoint) (method_name reqMethod))"
proof -
  have t: "ctx_transport routing_ctx w
          (request_options resolved_sample_credentials (JStr ''tok123'') reqMethod
             (ensure_leading_slash endpoint) reqBody reqQs) = Inl (status_error 404)"
    using assms by (simp add: routing_ctx_def request_options_def)
  have n: "\<not> array_includes RETRY_STATUS_CODES (resolved_statusCode (status_error 404))"
    by (simp add: resolved_status_error RETRY_STATUS_CODES_def)
  from homebridgeApiRequest_rejected [OF getCredentials_routing getAccessToken_routing t n]
  show ?thesis by simp
qed

lemma int_to_string_404: "int_to_string 404 = ''404''"
  by code_simp

lemma library_message_not_found:
  "library_message (handleApiError (status_error 404) endpoint methodName) =
     ''The resource you are requesting could not be found''"
  by (simp add: handleApiError_def Let_def resolved_status_error int_to_string_404)

lemma errorMessage_routing: "ctx_errorMessage routing_ctx = library_message"
  by (simp add: routing_ctx_def)

theorem executeBatchOperations_entries_witness:
  "length (fst (executeBatchOperations routing_ctx sample_batch [])) = 3 \<and>
   fst (executeBatchOperations routing_ctx sample_batch []) ! 0 =
     JObj [(''success'', JBool True), (''data'', JObj [(''ok'', JBool True)])] \<and>
   fst (executeBatchOperations routing_ctx sample_batch []) ! 1 =
     JObj [(''success'', JBool False),
           (''error'', JStr ''The resource you are requesting could not be found'')] \<and>
   fst (executeBatchOperations routing_ctx sample_batch []) ! 2 =
     JObj [(''success'', JBool True), (''data'', JObj [(''ok'', JBool True)])]"
proof -
  note T = executeBatchOperations_entries [of routing_ctx sample_batch "[]"]
  have len: "length sample_batch = 3" by (simp add: sample_batch_def)
  have l: "length (fst (executeBatchOperations routing_ctx sample_batch [])) = 3"
    using T len by simp
  have e0: "fst (executeBatchOperations routing_ctx sample_batch []) ! 0 =
     JObj [(''success'', JBool True), (''data'', JObj [(''ok'', JBool True)])]"
  proof -
    have "fst (batch_request routing_ctx (sample_batch ! 0) 0 w) = Inr (JObj [(''ok'', JBool True)])" for w
      unfolding batch_request_def
      by (rule routing_found)
         (simp add: sample_batch_def resolved_sample_credentials_def ensure_leading_slash_def startsWith_def)
    with T len show ?thesis by simp
  qed
  have e1: "fst (executeBatchOperations routing_ctx sample_batch []) ! 1 =
     JObj [(''success'', JBool False),
           (''error'', JStr ''The resource you are requesting could not be found'')]"
  proof -
    have "fst (batch_request routing_ctx (sample_batch ! 1) 1 w) =
            Inl (handleApiError (status_error 404)
                   (ensure_leading_slash (op_endpoint (sample_batch ! 1)))
                   (method_name (op_method (sample_batch ! 1))))" for w
      unfolding batch_request_def
      by (rule routing_missing)
         (simp add: sample_batch_def resolved_sample_credentials_def ensure_leading_slash_def startsWith_def)
    with T len show ?thesis by (simp add: errorMessage_routing library_message_not_found)
  qed
  have e2: "fst (executeBatchOperations routing_ctx sample_batch []) ! 2 =
     JObj [(''success'', JBool True), (''data'', JObj [(''ok'', JBool True)])]"
  proof -
    have "fst (batch_request routing_ctx (sample_batch ! 2) 2 w) = Inr (JObj [(''ok'', JBool True)])" for w
      unfolding batch_request_def
      by (rule routing_found)
         (simp add: sample_batch_def resolved_sample_credentials_def ensure_leading_slash_def startsWith_def)
    with T len show ?thesis by simp
  qed
  from l e0 e1 e2 show ?thesis by (intro conjI)
qed

section \<open>The request dispatcher\<close>

lemma getAccessToken_flaky: "getAccessToken (flaky_ctx error failures) i = Inr (JStr ''tok123'')"
  by (simp add: getAccessToken_def flaky_ctx_def)

lemma sample_options_eq:
  "request_options resolved_sample_credentials (JStr ''tok123'') GET
     (ensure_leading_slash ''api/accessories'') None None = sample_options"
  by (simp add: request_options_def resolved_sample_credentials_def sample_options_def
      ensure_leading_slash_def startsWith_def)

text \<open>
  Claim C7, as stated, fails: the dispatcher goes through the retry policy, so one call
  can hand more than one request to the transport. Against a server that answers 503
  once and then succeeds, the call sends two.
\<close>

theorem homebridgeApiRequest_two_requests_counterexample:
  "snd (homebridgeApiRequest (flaky_ctx (status_error 503) 1) GET ''api/accessories'' None None 0 []) =
     [Request sample_options, Sleep 1000, Request sample_options] \<and>
   count_requests
     (snd (homebridgeApiRequest (flaky_ctx (status_error 503) 1) GET ''api/accessories'' None None 0 [])) = 2"
proof -
  let ?ctx = "flaky_ctx (status_error 503) 1"
  have first: "ctx_transport ?ctx [] sample_options = Inl (status_error 503)"
    by (simp add: flaky_transport count_requests_def)
  have second: "ctx_transport ?ctx ([] @ [Request sample_options, Sleep (RETRY_DELAY * 2 ^ 0)])
                  sample_options = Inr (JObj [(''ok'', JBool True)])"
    by (simp add: flaky_transport count_requests_def)
  have inc: "array_includes RETRY_STATUS_CODES (resolved_statusCode (status_error 503))"
    by (simp add: resolved_status_error RETRY_STATUS_CODES_def)
  have "homebridgeApiRequestWithRetry ?ctx sample_options 0 [] =
        (Inr (JObj [(''ok'', JBool True)]), [Request sample_options, Sleep 1000, Request sample_options])"
    using retry_again [OF first inc, of 0] retry_success [OF second, of "0 + 1"]
    by (simp add: MAX_RETRIES_def RETRY_DELAY_def)
  then have "snd (homebridgeApiRequest ?ctx GET ''api/accessories'' None None 0 []) =
        [Request sample_options, Sleep 1000, Request sample_options]"
    using homebridgeApiRequest_trace [OF getCredentials_flaky [of "status_error 503" 1]
        getAccessToken_flaky [of "status_error 503" 1 0],
        where reqMethod = GET and endpoint = "''api/accessories''" and reqBody = None
          and reqQs = None and w = "[]"]
    by (simp add: sample_options_eq)
  then show ?thesis by (simp add: count_requests_def)
qed

lemma ensure_leading_slash_cases:
  "ensure_leading_slash endpoint = (if startsWith endpoint ''/'' then endpoint else ''/'' @ endpoint)"
  by (simp add: ensure_leading_slash_def)

lemma ensure_leading_slash_starts: "startsWith (ensure_leading_slash endpoint) ''/''"
  by (simp add: ensure_leading_slash_def startsWith_def)

lemma homebridgeApiRequest_single:
  assumes "getCredentials ctx = Inr cr" and "getAccessToken ctx itemIndex = Inr tok"
    and "\<forall>e. ctx_transport ctx w
           (request_options cr tok reqMethod (ensure_leading_slash endpoint) reqBody reqQs) = Inl e \<longrightarrow>
           resolved_statusCode e \<notin> Some ` {429, 500, 502, 503, 504}"
  shows "snd (homebridgeApiRequest ctx reqMethod endpoint reqBody reqQs itemIndex w) =
         w @ [Request (request_options cr tok reqMethod (ensure_leading_slash endpoint) reqBody reqQs)]"
proof (cases "ctx_transport ctx w
           (request_options cr tok reqMethod (ensure_leading_slash endpoint) reqBody reqQs)")
  case (Inl e)
  with assms(3) have "\<not> array_includes RETRY_STATUS_CODES (resolved_statusCode e)"
    by (simp add: array_includes_retry)
  from homebridgeApiRequest_rejected [OF assms(1,2) Inl this] show ?thesis by simp
next
  case (Inr r)
  from homebridgeApiRequest_answered [OF assms(1,2) Inr] show ?thesis by simp
qed

text \<open>
  Claim C7, amended. When credentials and token resolve, one call sends between one and
  four requests, one per attempt of the retry policy, and exactly one when the first
  attempt succeeds or fails with a status that is not retried. Every request sent carries
  the same options: the URL is the server URL followed by the endpoint, which is given a
  leading slash when it has none and so always begins with one, and the headers are
  \<^verbatim>\<open>Accept: application/json\<close>, \<^verbatim>\<open>Content-Type: application/json\<close> and
  \<^verbatim>\<open>Authorization: Bearer\<close> followed by the resolved token.
\<close>

theorem homebridgeApiRequest_dispatch:
  assumes "getCredentials ctx = Inr cr" and "getAccessToken ctx itemIndex = Inr tok"
  shows "\<exists>options k. k \<le> 3 \<and>
     snd (homebridgeApiRequest ctx reqMethod endpoint reqBody reqQs itemIndex w) =
       w @ backoff_trace options 0 k \<and>
     count_requests (backoff_trace options 0 k) = k + 1 \<and>
     (\<forall>e \<in> set (backoff_trace options 0 k). is_request e \<longrightarrow> e = Request options) \<and>
     url options = serverUrl cr @ (if startsWith endpoint ''/'' then endpoint else ''/'' @ endpoint) \<and>
     startsWith (if startsWith endpoint ''/'' then endpoint else ''/'' @ endpoint) ''/'' \<and>
     headers options = [(''Accept'', ''application/json''), (''Content-Type'', ''application/json''),
                        (''Authorization'', ''Bearer '' @ toString tok)] \<and>
     ((\<forall>e. ctx_transport ctx w options = Inl e \<longrightarrow>
           resolved_statusCode e \<notin> Some ` {429, 500, 502, 503, 504}) \<longrightarrow>
      snd (homebridgeApiRequest ctx reqMethod endpoint reqBody reqQs itemIndex w) =
        w @ [Request options])"
proof -
  let ?o = "request_options cr tok reqMethod (ensure_leading_slash endpoint) reqBody reqQs"
  from retry_trace [of 0 ctx ?o w] obtain k where k: "k \<le> 3"
    and tr: "snd (homebridgeApiRequestWithRetry ctx ?o 0 w) = w @ backoff_trace ?o 0 k"
    by (auto simp add: MAX_RETRIES_def)
  have 1: "snd (homebridgeApiRequest ctx reqMethod endpoint reqBody reqQs itemIndex w) =
       w @ backoff_trace ?o 0 k"
    by (simp add: homebridgeApiRequest_trace [OF assms] tr)
  have 2: "count_requests (backoff_trace ?o 0 k) = k + 1"
    by (rule count_requests_backoff_trace)
  have 3: "\<forall>e \<in> set (backoff_trace ?o 0 k). is_request e \<longrightarrow> e = Request ?o"
    using requests_of_backoff_trace by blast
  have 4: "url ?o = serverUrl cr @ (if startsWith endpoint ''/'' then endpoint else ''/'' @ endpoint)"
    by (simp add: request_options_def ensure_leading_slash_cases)
  have 5: "startsWith (if startsWith endpoint ''/'' then endpoint else ''/'' @ endpoint) ''/''"
    using ensure_leading_slash_starts [of endpoint] by (simp add: ensure_leading_slash_cases)
  have 6: "headers ?o = [(''Accept'', ''application/json''), (''Content-Type'', ''application/json''),
                        (''Authorization'', ''Bearer '' @ toString tok)]"
    by (simp add: request_options_def)
  have 7: "(\<forall>e. ctx_transport ctx w ?o = Inl e \<longrightarrow>
           resolved_statusCode e \<notin> Some ` {429, 500, 502, 503, 504}) \<longrightarrow>
      snd (homebridgeApiRequest ctx reqMethod endpoint reqBody reqQs itemIndex w) = w @ [Request ?o]"
    using homebridgeApiRequest_single [OF assms] by blast
  from k 1 2 3 4 5 6 7 show ?thesis by blast
qed

theorem homebridgeApiRequest_dispatch_witness:
  "getCredentials (flaky_ctx network_error 0) = Inr resolved_sample_credentials \<and>
   getAccessToken (flaky_ctx network_error 0) 0 = Inr (JStr ''tok123'') \<and>
   (\<exists>options.
      snd (homebridgeApiRequest (flaky_ctx network_error 0) GET ''api/accessories'' None None 0 []) =
        [Request options] \<and>
      url options = ''http://host:8581/api/accessories'' \<and>
      headers options = [(''Accept'', ''application/json''), (''Content-Type'', ''application/json''),
                         (''Authorization'', ''Bearer tok123'')])"
proof -
  let ?ctx = "flaky_ctx network_error 0"
  have c: "getCredentials ?ctx = Inr resolved_sample_credentials" by (rule getCredentials_flaky)
  have t: "getAccessToken ?ctx 0 = Inr (JStr ''tok123'')" by (rule getAccessToken_flaky)
  from homebridgeApiRequest_dispatch [OF c t, of GET "''api/accessories''" None None "[]"]
  obtain options where
    u: "url options = serverUrl resolved_sample_credentials @
          (if startsWith ''api/accessories'' ''/'' then ''api/accessories'' else ''/'' @ ''api/accessories'')"
    and h: "headers options = [(''Accept'', ''application/json''), (''Content-Type'', ''application/json''),
                        (''Authorization'', ''Bearer '' @ toString (JStr ''tok123''))]"
    and one: "(\<forall>e. ctx_transport ?ctx [] options = Inl e \<longrightarrow>
           resolved_statusCode e \<notin> Some ` {429, 500, 502, 503, 504}) \<longrightarrow>
      snd (homebridgeApiRequest ?ctx GET ''api/accessories'' None None 0 []) = [] @ [Request options]"
    by blast
  have "snd (homebridgeApiRequest ?ctx GET ''api/accessories'' None None 0 []) = [Request options]"
    using one by (simp add: flaky_transport)
  moreover have "url options = ''http://host:8581/api/accessories''"
    using u by (simp add: resolved_sample_credentials_def startsWith_def)
  moreover have "headers options = [(''Accept'', ''application/json''), (''Content-Type'', ''application/json''),
                         (''Authorization'', ''Bearer tok123'')]"
    using h by simp
  ultimately show ?thesis using c t by blast
qed

section \<open>The pagination helper\<close>

lemma paginate_failed:
  assumes "homebridgeApiRequest ctx reqMethod endpoint None (Some (page_query reqQs page)) itemIndex w =
           (Inl e, w')"
  shows "handlePaginatedRequest_loop ctx reqMethod endpoint reqQs itemIndex limit page allItems w =
         Some (Inl e, w')"
  by (subst handlePaginatedRequest_loop.simps) (simp add: assms)

lemma paginate_page:
  assumes "homebridgeApiRequest ctx reqMethod endpoint None (Some (page_query reqQs page)) itemIndex w =
           (Inr response, w')"
  shows "handlePaginatedRequest_loop ctx reqMethod endpoint reqQs itemIndex limit page allItems w =
         (if 0 < limit \<and> limit \<le> int (length (allItems @ page_items response)) then
            Some (Inr (take (nat limit) (allItems @ page_items response)), w')
          else if length (page_items response) < 100 then
            Some (Inr (allItems @ page_items response), w')
          else handlePaginatedRequest_loop ctx reqMethod endpoint reqQs itemIndex limit (page + 1)
                 (allItems @ page_items response) w')"
  by (subst handlePaginatedRequest_loop.simps) (simp add: assms Let_def pageSize_def)

lemma page_query_page: "map_of (page_query reqQs page) ''page'' = Some (JNum (int page))"
  by (simp add: page_query_def update_conv')

lemma page_query_limit: "map_of (page_query reqQs page) ''limit'' = Some (JNum 100)"
  by (simp add: page_query_def update_conv' pageSize_def)

lemma getCredentials_paged: "getCredentials (paged_ctx sizes) = Inr resolved_sample_credentials"
  by (simp add: getCredentials_def paged_ctx_def sample_credentials_def
      resolved_sample_credentials_def strip_trailing_slash_def endsWith_def)

lemma getAccessToken_paged: "getAccessToken (paged_ctx sizes) i = Inr (JStr ''tok123'')"
  by (simp add: getAccessToken_def paged_ctx_def)

lemma paged_request:
  "homebridgeApiRequest (paged_ctx sizes) GET endpoint None (Some (page_query [] page)) i w =
     (Inr (JArr (replicate (page_size_at sizes (JNum (int page))) (JObj []))),
      w @ [Request (page_options endpoint page)])"
proof -
  have "ctx_transport (paged_ctx sizes) w (page_options endpoint page) =
          Inr (JArr (replicate (page_size_at sizes (JNum (int page))) (JObj [])))"
    by (simp add: paged_ctx_def page_options_def requested_page_def request_options_def page_query_page)
  from homebridgeApiRequest_answered [OF getCredentials_paged getAccessToken_paged
      this [unfolded page_options_def]]
  show ?thesis by (simp add: page_options_def)
qed

lemma requested_page_options: "requested_page (page_options endpoint page) = JNum (int page)"
  by (simp add: requested_page_def page_options_def request_options_def page_query_page)

lemma page_items_array: "page_items (JArr xs) = xs"
  by (simp add: page_items_def)

lemma paginate_next:
  assumes "homebridgeApiRequest ctx reqMethod endpoint None (Some (page_query reqQs page)) itemIndex w =
           (Inr (JArr xs), w')"
    and "\<not> (0 < limit \<and> limit \<le> int (length (allItems @ xs)))" and "100 \<le> length xs"
    and "page' = page + 1"
  shows "handlePaginatedRequest_loop ctx reqMethod endpoint reqQs itemIndex limit page allItems w =
         handlePaginatedRequest_loop ctx reqMethod endpoint reqQs itemIndex limit page'
           (allItems @ xs) w'"
proof -
  from assms(3) have "\<not> length xs < 100" by simp
  then show ?thesis
    unfolding paginate_page [OF assms(1)] page_items_array
    by (simp only: assms(2) assms(4) if_False)
qed

lemma paginate_last:
  assumes "homebridgeApiRequest ctx reqMethod endpoint None (Some (page_query reqQs page)) itemIndex w =
           (Inr (JArr xs), w')"
    and "\<not> (0 < limit \<and> limit \<le> int (length (allItems @ xs)))" and "length xs < 100"
  shows "handlePaginatedRequest_loop ctx reqMethod endpoint reqQs itemIndex limit page allItems w =
         Some (Inr (allItems @ xs), w')"
  unfolding paginate_page [OF assms(1)] page_items_array
  by (simp only: assms(2) assms(3) if_False if_True)

lemma paginate_limit:
  assumes "homebridgeApiRequest ctx reqMethod endpoint None (Some (page_query reqQs page)) itemIndex w =
           (Inr (JArr xs), w')"
    and "0 < limit \<and> limit \<le> int (length (allItems @ xs))"
  shows "handlePaginatedRequest_loop ctx reqMethod endpoint reqQs itemIndex limit page allItems w =
         Some (Inr (take (nat limit) (allItems @ xs)), w')"
  unfolding paginate_page [OF assms(1)] page_items_array
  by (simp only: assms(2) if_True simp_thms)

lemma paginate_example_no_limit:
  "handlePaginatedRequest (paged_ctx [100, 100, 40]) GET ''/api/items'' [] 0 0 [] =
     Some (Inr (replicate 240 (JObj [])),
           [Request (page_options ''/api/items'' 1), Request (page_options ''/api/items'' 2),
            Request (page_options ''/api/items'' 3)])"
proof -
  let ?ctx = "paged_ctx [100, 100, 40]"
  let ?e = "''/api/items''"
  let ?w1 = "[Request (page_options ?e 1)]"
  let ?w2 = "[Request (page_options ?e 1), Request (page_options ?e 2)]"
  let ?w3 = "[Request (page_options ?e 1), Request (page_options ?e 2), Request (page_options ?e 3)]"
  have p1: "homebridgeApiRequest ?ctx GET ?e None (Some (page_query [] 1)) 0 [] =
              (Inr (JArr (replicate 100 (JObj []))), ?w1)"
    using paged_request [of "[100, 100, 40]" ?e 1 0 "[]"] by (simp add: page_size_at_def)
  have p2: "homebridgeApiRequest ?ctx GET ?e None (Some (page_query [] 2)) 0 ?w1 =
              (Inr (JArr (replicate 100 (JObj []))), ?w2)"
    using paged_request [of "[100, 100, 40]" ?e 2 0 ?w1] by (simp add: page_size_at_def)
  have p3: "homebridgeApiRequest ?ctx GET ?e None (Some (page_query [] 3)) 0 ?w2 =
              (Inr (JArr (replicate 40 (JObj []))), ?w3)"
    using paged_request [of "[100, 100, 40]" ?e 3 0 ?w2] by (simp add: page_size_at_def)
  have "handlePaginatedRequest_loop ?ctx GET ?e [] 0 0 1 [] [] =
        handlePaginatedRequest_loop ?ctx GET ?e [] 0 0 2 ([] @ replicate 100 (JObj [])) ?w1"
    by (rule paginate_next [OF p1]) simp_all
  also have "\<dots> = handlePaginatedRequest_loop ?ctx GET ?e [] 0 0 3
                    (([] @ replicate 100 (JObj [])) @ replicate 100 (JObj [])) ?w2"
    by (rule paginate_next [OF p2]) simp_all
  also have "\<dots> = Some (Inr ((([] @ replicate 100 (JObj [])) @ replicate 100 (JObj [])) @
                              replicate 40 (JObj [])), ?w3)"
    by (rule paginate_last [OF p3]) simp_all
  also have "(([] @ replicate 100 (JObj [])) @ replicate 100 (JObj [])) @ replicate 40 (JObj []) =
             replicate 240 (JObj [])"
    by (simp add: replicate_add [symmetric])
  finally show ?thesis by (simp add: handlePaginatedRequest_def)
qed

lemma paginate_example_limit:
  "handlePaginatedRequest (paged_ctx [100, 100]) GET ''/api/items'' [] 0 150 [] =
     Some (Inr (replicate 150 (JObj [])),
           [Request (page_options ''/api/items'' 1), Request (page_options ''/api/items'' 2)])"
proof -
  let ?ctx = "paged_ctx [100, 100]"
  let ?e = "''/api/items''"
  let ?w1 = "[Request (page_options ?e 1)]"
  let ?w2 = "[Request (page_options ?e 1), Request (page_options ?e 2)]"
  have p1: "homebridgeApiRequest ?ctx GET ?e None (Some (page_query [] 1)) 0 [] =
              (Inr (JArr (replicate 100 (JObj []))), ?w1)"
    using paged_request [of "[100, 100]" ?e 1 0 "[]"] by (simp add: page_size_at_def)
  have p2: "homebridgeApiRequest ?ctx GET ?e None (Some (page_query [] 2)) 0 ?w1 =
              (Inr (JArr (replicate 100 (JObj []))), ?w2)"
    using paged_request [of "[100, 100]" ?e 2 0 ?w1] by (simp add: page_size_at_def)
  have "handlePaginatedRequest_loop ?ctx GET ?e [] 0 150 1 [] [] =
        handlePaginatedRequest_loop ?ctx GET ?e [] 0 150 2 ([] @ replicate 100 (JObj [])) ?w1"
    by (rule paginate_next [OF p1]) simp_all
  also have "\<dots> = Some (Inr (take (nat 150) (([] @ replicate 100 (JObj [])) @ replicate 100 (JObj []))), ?w2)"
    by (rule paginate_limit [OF p2]) simp
  also have "take (nat 150) (([] @ replicate 100 (JObj [])) @ replicate 100 (JObj [])) =
             replicate 150 (JObj [])"
    by (simp add: replicate_add [symmetric])
  finally show ?thesis by (simp add: handlePaginatedRequest_def)
qed

text \<open>
  Claim C6. The helper starts the loop at page 1 with nothing accumulated; the request of
  a page carries \<^verbatim>\<open>page\<close> equal to the page number and \<^verbatim>\<open>limit\<close> equal to 100. When the
  page comes back, its items are appended to those accumulated. If the caller's limit is
  positive and now reached, the loop returns the first \<open>limit\<close> items, exactly that many;
  otherwise, if the page has fewer than 100 items, it returns everything accumulated;
  otherwise it goes on with the next page number. These are the only ways a returned page
  ends the loop; a request that fails ends it with the failure. Pages of sizes 100, 100,
  40 and no limit give 240 items after the requests for pages 1, 2, 3; pages of sizes
  100, 100 and limit 150 give 150 items after the requests for pages 1 and 2.
\<close>

theorem handlePaginatedRequest_pages:
  "handlePaginatedRequest ctx reqMethod endpoint reqQs itemIndex limit w =
     handlePaginatedRequest_loop ctx reqMethod endpoint reqQs itemIndex limit 1 [] w \<and>
   map_of (page_query reqQs page) ''page'' = Some (JNum (int page)) \<and>
   map_of (page_query reqQs page) ''limit'' = Some (JNum 100) \<and>
   (homebridgeApiRequest ctx reqMethod endpoint None (Some (page_query reqQs page)) itemIndex w =
      (Inl e, w') \<longrightarrow>
      handlePaginatedRequest_loop ctx reqMethod endpoint reqQs itemIndex limit page allItems w =
        Some (Inl e, w')) \<and>
   (homebridgeApiRequest ctx reqMethod endpoint None (Some (page_query reqQs page)) itemIndex w =
      (Inr response, w') \<longrightarrow>
      (0 < limit \<and> limit \<le> int (length (allItems @ page_items response)) \<longrightarrow>
         handlePaginatedRequest_loop ctx reqMethod endpoint reqQs itemIndex limit page allItems w =
           Some (Inr (take (nat limit) (allItems @ page_items response)), w') \<and>
         int (length (take (nat limit) (allItems @ page_items response))) = limit) \<and>
      (\<not> (0 < limit \<and> limit \<le> int (length (allItems @ page_items response))) \<and>
       length (page_items response) < 100 \<longrightarrow>
         handlePaginatedRequest_loop ctx reqMethod endpoint reqQs itemIndex limit page allItems w =
           Some (Inr (allItems @ page_items response), w')) \<and>
      (\<not> (0 < limit \<and> limit \<le> int (length (allItems @ page_items response))) \<and>
       100 \<le> length (page_items response) \<longrightarrow>
         handlePaginatedRequest_loop ctx reqMethod endpoint reqQs itemIndex limit page allItems w =
           handlePaginatedRequest_loop ctx reqMethod endpoint reqQs itemIndex limit (page + 1)
             (allItems @ page_items response) w')) \<and>
   (\<exists>items w'.
      handlePaginatedRequest (paged_ctx [100, 100, 40]) GET ''/api/items'' [] 0 0 [] =
        Some (Inr items, w') \<and>
      length items = 240 \<and> count_requests w' = 3 \<and> pages_of w' = [JNum 1, JNum 2, JNum 3]) \<and>
   (\<exists>items w'.
      handlePaginatedRequest (paged_ctx [100, 100]) GET ''/api/items'' [] 0 150 [] =
        Some (Inr items, w') \<and>
      length items = 150 \<and> count_requests w' = 2 \<and> pages_of w' = [JNum 1, JNum 2])"
proof -
  have top: "handlePaginatedRequest ctx reqMethod endpoint reqQs itemIndex limit w =
     handlePaginatedRequest_loop ctx reqMethod endpoint reqQs itemIndex limit 1 [] w"
    by (simp add: handlePaginatedRequest_def)
  have step: "homebridgeApiRequest ctx reqMethod endpoint None (Some (page_query reqQs page)) itemIndex w =
      (Inr response, w') \<longrightarrow>
      (0 < limit \<and> limit \<le> int (length (allItems @ page_items response)) \<longrightarrow>
         handlePaginatedRequest_loop ctx reqMethod endpoint reqQs itemIndex limit page allItems w =
           Some (Inr (take (nat limit) (allItems @ page_items response)), w') \<and>
         int (length (take (nat limit) (allItems @ page_items response))) = limit) \<and>
      (\<not> (0 < limit \<and> limit \<le> int (length (allItems @ page_items response))) \<and>
       length (page_items response) < 100 \<longrightarrow>
         handlePaginatedRequest_loop ctx reqMethod endpoint reqQs itemIndex limit page allItems w =
           Some (Inr (allItems @ page_items response), w')) \<and>
      (\<not> (0 < limit \<and> limit \<le> int (length (allItems @ page_items response))) \<and>
       100 \<le> length (page_items response) \<longrightarrow>
         handlePaginatedRequest_loop ctx reqMethod endpoint reqQs itemIndex limit page allItems w =
           handlePaginatedRequest_loop ctx reqMethod endpoint reqQs itemIndex limit (page + 1)
             (allItems @ page_items response) w')"
  proof
    assume r: "homebridgeApiRequest ctx reqMethod endpoint None (Some (page_query reqQs page)) itemIndex w =
      (Inr response, w')"
    show "(0 < limit \<and> limit \<le> int (length (allItems @ page_items response)) \<longrightarrow>
         handlePaginatedRequest_loop ctx reqMethod endpoint reqQs itemIndex limit page allItems w =
           Some (Inr (take (nat limit) (allItems @ page_items response)), w') \<and>
         int (length (take (nat limit) (allItems @ page_items response))) = limit) \<and>
      (\<not> (0 < limit \<and> limit \<le> int (length (allItems @ page_items response))) \<and>
       length (page_items response) < 100 \<longrightarrow>
         handlePaginatedRequest_loop ctx reqMethod endpoint reqQs itemIndex limit page allItems w =
           Some (Inr (allItems @ page_items response), w')) \<and>
      (\<not> (0 < limit \<and> limit \<le> int (length (allItems @ page_items response))) \<and>
       100 \<le> length (page_items response) \<longrightarrow>
         handlePaginatedRequest_loop ctx reqMethod endpoint reqQs itemIndex limit page allItems w =
           handlePaginatedRequest_loop ctx reqMethod endpoint reqQs itemIndex limit (page + 1)
             (allItems @ page_items response) w')"
      unfolding paginate_page [OF r] by auto
  qed
  have ex1: "\<exists>items w'.
      handlePaginatedRequest (paged_ctx [100, 100, 40]) GET ''/api/items'' [] 0 0 [] =
        Some (Inr items, w') \<and>
      length items = 240 \<and> count_requests w' = 3 \<and> pages_of w' = [JNum 1, JNum 2, JNum 3]"
    by (simp add: paginate_example_no_limit count_requests_def requested_page_options)
  have ex2: "\<exists>items w'.
      handlePaginatedRequest (paged_ctx [100, 100]) GET ''/api/items'' [] 0 150 [] =
        Some (Inr items, w') \<and>
      length items = 150 \<and> count_requests w' = 2 \<and> pages_of w' = [JNum 1, JNum 2]"
    by (simp add: paginate_example_limit count_requests_def requested_page_options)
  have failed: "homebridgeApiRequest ctx reqMethod endpoint None (Some (page_query reqQs page)) itemIndex w =
      (Inl e, w') \<longrightarrow>
      handlePaginatedRequest_loop ctx reqMethod endpoint reqQs itemIndex limit page allItems w =
        Some (Inl e, w')"
    using paginate_failed by blast
  from top page_query_page [of reqQs page] page_query_limit [of reqQs page] failed step ex1 ex2
  show ?thesis by (intro conjI)
qed

theorem handlePaginatedRequest_pages_witness:
  "handlePaginatedRequest_loop (paged_ctx [100, 100, 40]) GET ''/api/items'' [] 0 0 1 [] [] =
     handlePaginatedRequest_loop (paged_ctx [100, 100, 40]) GET ''/api/items'' [] 0 0 (1 + 1)
       (replicate 100 (JObj [])) [Request (page_options ''/api/items'' 1)] \<and>
   handlePaginatedRequest_loop (paged_ctx [40]) GET ''/api/items'' [] 0 0 1 [] [] =
     Some (Inr (replicate 40 (JObj [])), [Request (page_options ''/api/items'' 1)]) \<and>
   handlePaginatedRequest_loop (paged_ctx [100]) GET ''/api/items'' [] 0 30 1 [] [] =
     Some (Inr (replicate 30 (JObj [])), [Request (page_options ''/api/items'' 1)])"
proof -
  let ?e = "''/api/items''"
  let ?w1 = "[Request (page_options ?e 1)]"
  have p: "homebridgeApiRequest (paged_ctx sizes) GET ?e None (Some (page_query [] 1)) 0 [] =
              (Inr (JArr (replicate (page_size_at sizes (JNum 1)) (JObj []))), ?w1)" for sizes
    using paged_request [of sizes ?e 1 0 "[]"] by simp
  note c4 = conjunct2 [THEN conjunct2, THEN conjunct2, THEN conjunct2, THEN conjunct1, THEN mp]
  have a: "handlePaginatedRequest_loop (paged_ctx [100, 100, 40]) GET ?e [] 0 0 1 [] [] =
     handlePaginatedRequest_loop (paged_ctx [100, 100, 40]) GET ?e [] 0 0 (1 + 1)
       (replicate 100 (JObj [])) ?w1"
    using handlePaginatedRequest_pages [of "paged_ctx [100, 100, 40]" GET ?e "[]" 0 0 "[]" 1 _
        ?w1 "[]" "JArr (replicate 100 (JObj []))", THEN c4, THEN conjunct2, THEN conjunct2]
      p [of "[100, 100, 40]"]
    by (simp add: page_size_at_def page_items_array)
  have b: "handlePaginatedRequest_loop (paged_ctx [40]) GET ?e [] 0 0 1 [] [] =
     Some (Inr (replicate 40 (JObj [])), ?w1)"
    using handlePaginatedRequest_pages [of "paged_ctx [40]" GET ?e "[]" 0 0 "[]" 1 _
        ?w1 "[]" "JArr (replicate 40 (JObj []))", THEN c4, THEN conjunct2, THEN conjunct1]
      p [of "[40]"]
    by (simp add: page_size_at_def page_items_array)
  have c: "handlePaginatedRequest_loop (paged_ctx [100]) GET ?e [] 0 30 1 [] [] =
     Some (Inr (replicate 30 (JObj [])), ?w1)"
    using handlePaginatedRequest_pages [of "paged_ctx [100]" GET ?e "[]" 0 30 "[]" 1 _
        ?w1 "[]" "JArr (replicate 100 (JObj []))", THEN c4, THEN conjunct1]
      p [of "[100]"]
    by (simp add: page_size_at_def page_items_array)
  from a b c show ?thesis by (intro conjI)
qed

lemma page_items_single: "\<not> isArray response \<Longrightarrow> page_items response = [response]"
  by (cases response) (simp_all add: page_items_def)

lemma paginate_single_object:
  assumes "homebridgeApiRequest ctx reqMethod endpoint None (Some (page_query reqQs page)) itemIndex w =
           (Inr response, w')"
    and "\<not> isArray response"
  shows "handlePaginatedRequest_loop ctx reqMethod endpoint reqQs itemIndex limit page allItems w =
         Some (Inr (if 0 < limit \<and> limit \<le> int (length allItems) + 1
                    then take (nat limit) (allItems @ [response]) else allItems @ [response]), w')"
  unfolding paginate_page [OF assms(1)] page_items_single [OF assms(2)] by simp

lemma getCredentials_answering: "getCredentials (answering_ctx answer) = Inr resolved_sample_credentials"
  by (simp add: getCredentials_def answering_ctx_def sample_credentials_def
      resolved_sample_credentials_def strip_trailing_slash_def endsWith_def)

lemma getAccessToken_answering: "getAccessToken (answering_ctx answer) i = Inr (JStr ''tok123'')"
  by (simp add: getAccessToken_def answering_ctx_def)

text \<open>
  Claim C10. A page that is not an array counts as the one-element list of itself; being
  shorter than 100, it ends the loop, with the accumulated items and itself as result
  (cut to a positive limit already reached). So when the first answer of the server is a
  single object, the helper returns the one-element list of it after exactly one request.
\<close>

theorem handlePaginatedRequest_single_object:
  "(homebridgeApiRequest ctx reqMethod endpoint None (Some (page_query reqQs page)) itemIndex w =
      (Inr response, w') \<and> \<not> isArray response \<longrightarrow>
      page_items response = [response] \<and>
      handlePaginatedRequest_loop ctx reqMethod endpoint reqQs itemIndex limit page allItems w =
        Some (Inr (if 0 < limit \<and> limit \<le> int (length allItems) + 1
                   then take (nat limit) (allItems @ [response]) else allItems @ [response]), w')) \<and>
   (getCredentials ctx = Inr cr \<and> getAccessToken ctx itemIndex = Inr tok \<and>
    ctx_transport ctx w
      (request_options cr tok reqMethod (ensure_leading_slash endpoint) None
         (Some (page_query reqQs 1))) = Inr response \<and>
    \<not> isArray response \<longrightarrow>
      handlePaginatedRequest ctx reqMethod endpoint reqQs itemIndex limit w =
        Some (Inr [response],
              w @ [Request (request_options cr tok reqMethod (ensure_leading_slash endpoint) None
                              (Some (page_query reqQs 1)))]))"
proof (intro conjI impI)
  assume a: "homebridgeApiRequest ctx reqMethod endpoint None (Some (page_query reqQs page)) itemIndex w =
      (Inr response, w') \<and> \<not> isArray response"
  then show "page_items response = [response]"
    by (simp add: page_items_single)
  from a show "handlePaginatedRequest_loop ctx reqMethod endpoint reqQs itemIndex limit page allItems w =
        Some (Inr (if 0 < limit \<and> limit \<le> int (length allItems) + 1
                   then take (nat limit) (allItems @ [response]) else allItems @ [response]), w')"
    by (simp add: paginate_single_object)
next
  let ?o = "request_options cr tok reqMethod (ensure_leading_slash endpoint) None
              (Some (page_query reqQs 1))"
  assume a: "getCredentials ctx = Inr cr \<and> getAccessToken ctx itemIndex = Inr tok \<and>
    ctx_transport ctx w ?o = Inr response \<and> \<not> isArray response"
  then have c: "getCredentials ctx = Inr cr" and t: "getAccessToken ctx itemIndex = Inr tok"
    and r: "ctx_transport ctx w ?o = Inr response" and n: "\<not> isArray response"
    by simp_all
  have "handlePaginatedRequest_loop ctx reqMethod endpoint reqQs itemIndex limit 1 [] w =
        Some (Inr (if 0 < limit \<and> limit \<le> int (length ([]::jsval list)) + 1
                   then take (nat limit) ([] @ [response]) else [] @ [response]), w @ [Request ?o])"
    by (rule paginate_single_object [OF homebridgeApiRequest_answered [OF c t r] n])
  moreover have "(if 0 < limit \<and> limit \<le> int (length ([]::jsval list)) + 1
                   then take (nat limit) ([] @ [response]) else [] @ [response]) = [response]"
  proof (cases "0 < limit \<and> limit \<le> 1")
    case True
    then have "limit = 1" by simp
    then show ?thesis by simp
  next
    case False
    then show ?thesis by auto
  qed
  ultimately show "handlePaginatedRequest ctx reqMethod endpoint reqQs itemIndex limit w =
        Some (Inr [response], w @ [Request ?o])"
    by (simp add: handlePaginatedRequest_def)
qed

theorem handlePaginatedRequest_single_object_witness:
  "getCredentials (answering_ctx (JObj [(''status'', JStr ''up'')])) = Inr resolved_sample_credentials \<and>
   getAccessToken (answering_ctx (JObj [(''status'', JStr ''up'')])) 0 = Inr (JStr ''tok123'') \<and>
   \<not> isArray (JObj [(''status'', JStr ''up'')]) \<and>
   handlePaginatedRequest (answering_ctx (JObj [(''status'', JStr ''up'')])) GET ''/api/status'' [] 0 0 [] =
     Some (Inr [JObj [(''status'', JStr ''up'')]], [Request (page_options ''/api/status'' 1)])"
proof -
  let ?r = "JObj [(''status'', JStr ''up'')]"
  have c: "getCredentials (answering_ctx ?r) = Inr resolved_sample_credentials"
    by (rule getCredentials_answering)
  have t: "getAccessToken (answering_ctx ?r) 0 = Inr (JStr ''tok123'')"
    by (rule getAccessToken_answering)
  have n: "\<not> isArray ?r" by simp
  have r: "ctx_transport (answering_ctx ?r) [] (page_options ''/api/status'' 1) = Inr ?r"
    by (simp add: answering_ctx_def)
  from handlePaginatedRequest_single_object [of "answering_ctx ?r" GET "''/api/status''" "[]" _ 0 "[]"
      ?r _ _ _ resolved_sample_credentials "JStr ''tok123''", THEN conjunct2, THEN mp]
    c t n r [unfolded page_options_def]
  have "handlePaginatedRequest (answering_ctx ?r) GET ''/api/status'' [] 0 0 [] =
          Some (Inr [?r], [] @ [Request (page_options ''/api/status'' 1)])"
    by (simp add: page_options_def)
  with c t n show ?thesis by simp
qed

section \<open>The token resolver\<close>

text \<open>
  Claim C2, as stated, fails for the \<^verbatim>\<open>preSend\<close> hook: with a non-empty
  \<^verbatim>\<open>accessToken\<close> parameter and a token in the input, the hook takes the token of the
  input, not the parameter.
\<close>

theorem addAuthToRequest_prefers_upstream_counterexample:
  "ctx_accessToken (chained_ctx ''manual'' login_output) 0 = ''manual'' \<and>
   addAuthToRequest_token (chained_ctx ''manual'' login_output) = Inr (JStr ''abc'')"
  by (simp add: addAuthToRequest_token_def chained_ctx_def login_output_def)

lemma upstream_token_truthy: "upstream_token payload = Some t \<Longrightarrow> truthy t"
  by (auto simp add: upstream_token_def split: sum.splits if_splits jsval.splits list.splits)

lemma scan_items_first:
  "scan_items items = Inr (case first_upstream_token items of None \<Rightarrow> JNull | Some t \<Rightarrow> t)"
proof (induction items)
  case Nil
  show ?case by simp
next
  case (Cons item rest)
  show ?case
  proof (cases "json item")
    case (JArr xs)
    then show ?thesis
    proof (cases xs)
      case Nil
      with JArr Cons.IH show ?thesis by (simp add: upstream_token_def)
    next
      case (Cons firstItem others)
      with JArr Cons.IH show ?thesis
        by (cases firstItem) (simp_all add: upstream_token_def split: option.splits)
    qed
  next
    case (JObj ps)
    with Cons.IH show ?thesis by (simp add: upstream_token_def split: option.splits)
  qed (simp_all add: Cons.IH upstream_token_def)
qed

lemma getAccessToken_manual:
  "ctx_accessToken ctx itemIndex \<noteq> [] \<Longrightarrow>
   getAccessToken ctx itemIndex = Inr (JStr (ctx_accessToken ctx itemIndex))"
  by (simp add: getAccessToken_def)

lemma getAccessToken_no_input:
  "ctx_accessToken ctx itemIndex = [] \<Longrightarrow> ctx_inputData ctx = [] \<Longrightarrow>
   getAccessToken ctx itemIndex = Inl (NodeOperationError no_access_token_message)"
  by (simp add: getAccessToken_def)

lemma getAccessToken_upstream:
  assumes "ctx_accessToken ctx itemIndex = []" and "itemIndex < length (ctx_inputData ctx)"
    and "json (ctx_inputData ctx ! itemIndex) \<noteq> JUndefined"
    and "json (ctx_inputData ctx ! itemIndex) \<noteq> JNull"
  shows "getAccessToken ctx itemIndex =
         (case upstream_token (json (ctx_inputData ctx ! itemIndex)) of
            Some t \<Rightarrow> Inr t
          | None \<Rightarrow> Inl (NodeOperationError no_access_token_message))"
proof (cases "json (ctx_inputData ctx ! itemIndex)")
  case (JArr xs)
  show ?thesis
  proof (cases xs)
    case Nil
    with JArr assms show ?thesis by (simp add: getAccessToken_def upstream_token_def Let_def)
  next
    case (Cons firstItem others)
    with JArr assms show ?thesis
      by (cases firstItem) (auto simp add: getAccessToken_def upstream_token_def Let_def split: option.splits)
  qed
next
  case (JObj ps)
  with assms show ?thesis
    by (auto simp add: getAccessToken_def upstream_token_def Let_def split: option.splits)
qed (use assms in \<open>simp_all add: getAccessToken_def upstream_token_def Let_def\<close>)

lemma first_upstream_token_truthy: "first_upstream_token items = Some t \<Longrightarrow> truthy t"
  by (induction items) (auto split: option.splits dest: upstream_token_truthy)

lemma addAuthToRequest_token_first:
  "addAuthToRequest_token ctx =
     (case first_upstream_token (ctx_inputData ctx) of
        Some t \<Rightarrow> Inr t
      | None \<Rightarrow>
          if ctx_accessToken ctx 0 \<noteq> [] then Inr (JStr (ctx_accessToken ctx 0))
          else Inl (JsError addAuthToRequest_message))"
proof (cases "first_upstream_token (ctx_inputData ctx)")
  case None
  then show ?thesis by (simp add: addAuthToRequest_token_def scan_items_first)
next
  case (Some t)
  then have "truthy t" by (rule first_upstream_token_truthy)
  with Some show ?thesis by (simp add: addAuthToRequest_token_def scan_items_first)
qed

lemma no_access_token_message_parts:
  "(\<exists>a b. no_access_token_message = a @ ''Connect a Login node to this node'' @ b) \<and>
   (\<exists>a b. no_access_token_message = a @ ''Manually enter the access token'' @ b)"
proof
  show "\<exists>a b. no_access_token_message = a @ ''Connect a Login node to this node'' @ b"
    by (rule exI [of _ "''No access token available. Please either:'' @ [CHR 0x0A] @ ''1. ''"],
        rule exI [of _ "'', or'' @ [CHR 0x0A] @ ''2. Manually enter the access token in the '' @
           [CHR 0x22] @ ''Access Token'' @ [CHR 0x22] @ '' field.''"])
       (simp add: no_access_token_message_def)
  show "\<exists>a b. no_access_token_message = a @ ''Manually enter the access token'' @ b"
    by (rule exI [of _ "''No access token available. Please either:'' @ [CHR 0x0A] @
           ''1. Connect a Login node to this node, or'' @ [CHR 0x0A] @ ''2. ''"],
        rule exI [of _ "'' in the '' @ [CHR 0x22] @ ''Access Token'' @ [CHR 0x22] @ '' field.''"])
       (simp add: no_access_token_message_def)
qed

lemma addAuthToRequest_message_parts:
  "(\<exists>a b. addAuthToRequest_message = a @ ''Connect the Login node to this node'' @ b) \<and>
   (\<exists>a b. addAuthToRequest_message = a @ ''Manually enter the access token'' @ b)"
proof
  show "\<exists>a b. addAuthToRequest_message = a @ ''Connect the Login node to this node'' @ b"
    by (rule exI [of _ "''No access token available. Please either: 1) ''"],
        rule exI [of _ "'', or 2) Manually enter the access token in the '' @
           [CHR 0x22] @ ''Access Token'' @ [CHR 0x22] @ '' field.''"])
       (simp add: addAuthToRequest_message_def)
  show "\<exists>a b. addAuthToRequest_message = a @ ''Manually enter the access token'' @ b"
    by (rule exI [of _ "''No access token available. Please either: 1) Connect the Login node to this node, or 2) ''"],
        rule exI [of _ "'' in the '' @ [CHR 0x22] @ ''Access Token'' @ [CHR 0x22] @ '' field.''"])
       (simp add: addAuthToRequest_message_def)
qed

text \<open>
  Claim C2, amended. \<^verbatim>\<open>getAccessToken\<close> returns a non-empty \<^verbatim>\<open>accessToken\<close> parameter
  whatever the input holds. With an empty parameter it looks at the input item of the
  current index only: it returns the token that item's payload offers (its truthy
  \<^verbatim>\<open>access_token\<close>, or that of the first element of a sequence payload), and fails with
  the no-access-token error when the payload offers none or when there is no input at
  all. The \<^verbatim>\<open>preSend\<close> hook goes the other way round: the first token the input items
  offer, in order, wins; the parameter is used only when they offer none; and with neither
  the hook fails. Either message tells the caller to connect a Login node or to enter the
  token manually.
\<close>

theorem token_resolution:
  "(ctx_accessToken ctx itemIndex \<noteq> [] \<longrightarrow>
      getAccessToken ctx itemIndex = Inr (JStr (ctx_accessToken ctx itemIndex))) \<and>
   (ctx_accessToken ctx itemIndex = [] \<and> itemIndex < length (ctx_inputData ctx) \<and>
    json (ctx_inputData ctx ! itemIndex) \<noteq> JUndefined \<and>
    json (ctx_inputData ctx ! itemIndex) \<noteq> JNull \<longrightarrow>
      getAccessToken ctx itemIndex =
        (case upstream_token (json (ctx_inputData ctx ! itemIndex)) of
           Some t \<Rightarrow> Inr t
         | None \<Rightarrow> Inl (NodeOperationError no_access_token_message))) \<and>
   (ctx_accessToken ctx itemIndex = [] \<and> ctx_inputData ctx = [] \<longrightarrow>
      getAccessToken ctx itemIndex = Inl (NodeOperationError no_access_token_message)) \<and>
   addAuthToRequest_token ctx =
     (case first_upstream_token (ctx_inputData ctx) of
        Some t \<Rightarrow> Inr t
      | None \<Rightarrow>
          if ctx_accessToken ctx 0 \<noteq> [] then Inr (JStr (ctx_accessToken ctx 0))
          else Inl (JsError addAuthToRequest_message)) \<and>
   (upstream_token payload = Some token \<longrightarrow> truthy token) \<and>
   (\<exists>a b. no_access_token_message = a @ ''Connect a Login node to this node'' @ b) \<and>
   (\<exists>a b. no_access_token_message = a @ ''Manually enter the access token'' @ b) \<and>
   (\<exists>a b. addAuthToRequest_message = a @ ''Connect the Login node to this node'' @ b) \<and>
   (\<exists>a b. addAuthToRequest_message = a @ ''Manually enter the access token'' @ b)"
proof -
  have 1: "ctx_accessToken ctx itemIndex \<noteq> [] \<longrightarrow>
      getAccessToken ctx itemIndex = Inr (JStr (ctx_accessToken ctx itemIndex))"
    by (simp add: getAccessToken_manual)
  have 2: "ctx_accessToken ctx itemIndex = [] \<and> itemIndex < length (ctx_inputData ctx) \<and>
    json (ctx_inputData ctx ! itemIndex) \<noteq> JUndefined \<and>
    json (ctx_inputData ctx ! itemIndex) \<noteq> JNull \<longrightarrow>
      getAccessToken ctx itemIndex =
        (case upstream_token (json (ctx_inputData ctx ! itemIndex)) of
           Some t \<Rightarrow> Inr t
         | None \<Rightarrow> Inl (NodeOperationError no_access_token_message))"
    using getAccessToken_upstream [of ctx itemIndex] by blast
  have 3: "ctx_accessToken ctx itemIndex = [] \<and> ctx_inputData ctx = [] \<longrightarrow>
      getAccessToken ctx itemIndex = Inl (NodeOperationError no_access_token_message)"
    by (simp add: getAccessToken_no_input)
  have 5: "upstream_token payload = Some token \<longrightarrow> truthy token"
    using upstream_token_truthy by blast
  from 1 2 3 addAuthToRequest_token_first [of ctx] 5
    no_access_token_message_parts [THEN conjunct1] no_access_token_message_parts [THEN conjunct2]
    addAuthToRequest_message_parts [THEN conjunct1] addAuthToRequest_message_parts [THEN conjunct2]
  show ?thesis by (intro conjI)
qed

theorem token_resolution_witness:
  "getAccessToken (chained_ctx ''manual'' login_output) 0 = Inr (JStr ''manual'') \<and>
   getAccessToken (chained_ctx [] login_output) 0 = Inr (JStr ''abc'') \<and>
   getAccessToken (chained_ctx [] sequence_output) 0 = Inr (JStr ''abc'') \<and>
   getAccessToken (chained_ctx [] []) 0 = Inl (NodeOperationError no_access_token_message) \<and>
   addAuthToRequest_token (chained_ctx ''manual'' []) = Inr (JStr ''manual'') \<and>
   addAuthToRequest_token (chained_ctx [] []) = Inl (JsError addAuthToRequest_message)"
proof -
  note T = token_resolution [where itemIndex = 0]
  have a: "getAccessToken (chained_ctx ''manual'' login_output) 0 = Inr (JStr ''manual'')"
    using T [of "chained_ctx ''manual'' login_output", THEN conjunct1]
    by (simp add: chained_ctx_def)
  have b: "getAccessToken (chained_ctx [] login_output) 0 = Inr (JStr ''abc'')"
    using T [of "chained_ctx [] login_output", THEN conjunct2, THEN conjunct1]
    by (simp add: chained_ctx_def login_output_def upstream_token_def)
  have c: "getAccessToken (chained_ctx [] sequence_output) 0 = Inr (JStr ''abc'')"
    using T [of "chained_ctx [] sequence_output", THEN conjunct2, THEN conjunct1]
    by (simp add: chained_ctx_def sequence_output_def upstream_token_def)
  have d: "getAccessToken (chained_ctx [] []) 0 = Inl (NodeOperationError no_access_token_message)"
    using T [of "chained_ctx [] []", THEN conjunct2, THEN conjunct2, THEN conjunct1]
    by (simp add: chained_ctx_def)
  have e: "addAuthToRequest_token (chained_ctx ''manual'' []) = Inr (JStr ''manual'')"
    using T [of "chained_ctx ''manual'' []", THEN conjunct2, THEN conjunct2, THEN conjunct2, THEN conjunct1]
    by (simp add: chained_ctx_def)
  have f: "addAuthToRequest_token (chained_ctx [] []) = Inl (JsError addAuthToRequest_message)"
    using T [of "chained_ctx [] []", THEN conjunct2, THEN conjunct2, THEN conjunct2, THEN conjunct1]
    by (simp add: chained_ctx_def)
  from a b c d e f show ?thesis by (intro conjI)
qed

end
